theory Spec2Isabelle
  imports Main
begin

section \<open>JavaScript values\<close>

text \<open>
  The services receive parsed JSON (the webhook envelope, HTTP response bodies, request
  bodies) and read it with JavaScript's dynamic operators. A value is a \<open>js\<close>;
  \<open>undefined\<close> is \<open>None\<close> of \<open>js option\<close>. JSON numbers are modelled by
  integers, a \<open>Date\<close> object by its epoch milliseconds, and an object by the list of
  its properties, read with \<open>map_of\<close>.
\<close>

datatype js =
    JNull
  | JBool bool
  | JNum int
  | JStr string
  | JDate int
  | JArr "js list"
  | JObj "(string \<times> js) list"

type_synonym jsval = "js option"

text \<open>Object literals built by the code itself (constructor arguments, the config).\<close>

type_synonym jsobject = "string \<Rightarrow> js option"

datatype error =
    Error string
  | TypeError string
  | RangeError string
  | ApiError nat string

fun err_message :: "error \<Rightarrow> string" where
  "err_message (Error m) = m"
| "err_message (TypeError m) = m"
| "err_message (RangeError m) = m"
| "err_message (ApiError c m) = m"

text \<open>JavaScript truthiness: the test behind \<open>!x\<close>, \<open>x && y\<close>, \<open>x || y\<close> and
  \<open>x ? y : z\<close>.\<close>

fun truthy :: "jsval \<Rightarrow> bool" where
  "truthy None = False"
| "truthy (Some JNull) = False"
| "truthy (Some (JBool b)) = b"
| "truthy (Some (JNum n)) = (n \<noteq> 0)"
| "truthy (Some (JStr s)) = (s \<noteq> [])"
| "truthy (Some (JDate t)) = True"
| "truthy (Some (JArr xs)) = True"
| "truthy (Some (JObj kvs)) = True"

text \<open>\<open>x || d\<close> with a default \<open>d\<close> that is a plain value.\<close>

fun js_or :: "jsval \<Rightarrow> js \<Rightarrow> js" where
  "js_or None d = d"
| "js_or (Some x) d = (if truthy (Some x) then x else d)"

text \<open>
  A named property read \<open>v.k\<close>, for the property names the services use (none of
  them is \<open>length\<close>, an index or a prototype method): a \<open>TypeError\<close> on
  \<open>undefined\<close> and \<open>null\<close>, the own property of an object, \<open>undefined\<close>
  on every other value.
\<close>

fun member :: "jsval \<Rightarrow> string \<Rightarrow> error + jsval" where
  "member None k = Inl (TypeError (''Cannot read properties of undefined (reading '' @ k @ '')''))"
| "member (Some JNull) k = Inl (TypeError (''Cannot read properties of null (reading '' @ k @ '')''))"
| "member (Some (JObj kvs)) k = Inr (map_of kvs k)"
| "member (Some v) k = Inr None"

text \<open>\<open>v.length\<close>.\<close>

fun js_length :: "jsval \<Rightarrow> error + jsval" where
  "js_length None = Inl (TypeError ''Cannot read properties of undefined (reading length)'')"
| "js_length (Some JNull) = Inl (TypeError ''Cannot read properties of null (reading length)'')"
| "js_length (Some (JArr xs)) = Inr (Some (JNum (int (length xs))))"
| "js_length (Some (JStr s)) = Inr (Some (JNum (int (length s))))"
| "js_length (Some (JObj kvs)) = Inr (map_of kvs ''length'')"
| "js_length (Some v) = Inr None"

text \<open>\<open>v[0]\<close>.\<close>

fun js_first :: "jsval \<Rightarrow> error + jsval" where
  "js_first None = Inl (TypeError ''Cannot read properties of undefined (reading 0)'')"
| "js_first (Some JNull) = Inl (TypeError ''Cannot read properties of null (reading 0)'')"
| "js_first (Some (JArr [])) = Inr None"
| "js_first (Some (JArr (x # xs))) = Inr (Some x)"
| "js_first (Some (JStr [])) = Inr None"
| "js_first (Some (JStr (c # cs))) = Inr (Some (JStr [c]))"
| "js_first (Some (JObj kvs)) = Inr (map_of kvs ''0'')"
| "js_first (Some v) = Inr None"

text \<open>The elements a \<open>for (const x of v)\<close> loop visits: arrays and strings are
  iterable, everything else raises a \<open>TypeError\<close>.\<close>

fun iterate :: "jsval \<Rightarrow> error + js list" where
  "iterate (Some (JArr xs)) = Inr xs"
| "iterate (Some (JStr s)) = Inr (map (\<lambda>c. JStr [c]) s)"
| "iterate v = Inl (TypeError ''value is not iterable'')"

text \<open>The decimal rendering of a number inside a template literal.\<close>

fun digit_char :: "nat \<Rightarrow> char" where
  "digit_char n = ''0123456789'' ! (n mod 10)"

fun string_of_nat :: "nat \<Rightarrow> string" where
  "string_of_nat n = (if n < 10 then [digit_char n] else string_of_nat (n div 10) @ [digit_char n])"

declare string_of_nat.simps [simp del]

text \<open>An object literal as it is serialised: a property whose value is
  \<open>undefined\<close> is left out, and a key written twice keeps its first position
  with the later value.\<close>

fun obj_set :: "string \<Rightarrow> js \<Rightarrow> (string \<times> js) list \<Rightarrow> (string \<times> js) list" where
  "obj_set k v [] = [(k, v)]"
| "obj_set k v ((k', v') # kvs) = (if k = k' then (k, v) # kvs else (k', v') # obj_set k v kvs)"

definition obj :: "(string \<times> jsval) list \<Rightarrow> js" where
  "obj kvs = JObj (foldl (\<lambda>acc (k, v). case v of
                              None \<Rightarrow> filter (\<lambda>(k', v'). k' \<noteq> k) acc
                            | Some x \<Rightarrow> obj_set k x acc) [] kvs)"

section \<open>The environment: storage outcomes, remote services, clock\<close>

text \<open>
  Everything outside the process is an oracle of the environment. The storage engine
  answers each operation (counted by \<open>n_db\<close>) with success, a failure to get a
  connection, or a failure of the statement. The remote services answer the i-th HTTP
  request of the process (counted by \<open>n_http\<close>). The system clock answers the
  i-th reading (counted by \<open>n_now\<close>); \<open>uuidv4\<close> the i-th identifier. The
  built-ins \<open>parseInt\<close>, \<open>Date.prototype.toISOString\<close> and \<open>String\<close> are
  parameters, and so is \<open>engine_sort\<close>: the order in which the JavaScript engine
  leaves an array sorted with a comparator that is not consistent (see
  \<open>Array_sort\<close> below).
\<close>

datatype db_outcome = DbOk | ConnectFails error | ExecuteFails error

record run =
  run_id :: string
  run_status :: string

record content_part =
  part_type :: string
  part_text_value :: string

record thread_message =
  tm_role :: string
  tm_created_at :: int
  tm_content :: "content_part list"

record env =
  db_outcome :: "nat \<Rightarrow> db_outcome"
  clock :: "nat \<Rightarrow> int"
  uuidv4 :: "nat \<Rightarrow> string"
  parseInt :: "jsval \<Rightarrow> int option"
  toISOString :: "int \<Rightarrow> string"
  String :: "jsval \<Rightarrow> string"
  threads_create :: "nat \<Rightarrow> error + string"
  threads_messages_create :: "nat \<Rightarrow> error + unit"
  threads_runs_create :: "nat \<Rightarrow> error + run"
  threads_runs_retrieve :: "nat \<Rightarrow> error + run"
  threads_messages_list :: "nat \<Rightarrow> error + thread_message list"
  axios_post :: "nat \<Rightarrow> error + jsval"
  axios_get :: "nat \<Rightarrow> error + jsval"
  engine_sort :: "(thread_message \<Rightarrow> thread_message \<Rightarrow> int) \<Rightarrow> thread_message list
                    \<Rightarrow> thread_message list"
  WHATSAPP_VERIFY_TOKEN :: "string option"
  OPENAI_ASSISTANT_ID :: "string option"

section \<open>Conversations and messages\<close>

record conversation =
  conv_id :: js
  conv_wa_id :: jsval
  conv_user_id :: js
  conv_patient_id :: js
  conv_type :: js
  conv_status :: js
  conv_config :: jsobject
  conv_created_at :: js
  conv_updated_at :: js

record message =
  m_id :: js
  m_conversation_id :: jsval
  m_type :: js
  m_wa_id :: js
  m_timestamp :: js
  m_replying_to_mesage_id :: js
  m_business_phone_number_id :: js
  m_whatsapp_webhook_data :: js
  m_text :: js
  m_media :: js
  m_location :: js
  m_contact :: js
  m_emoji :: js
  m_status :: js
  m_created_at :: js
  m_updated_at :: js

text \<open>
  What the process did to the outside, in order: HTTP requests and SQL writes. A table
  row holds the values of its columns themselves; the JSON encoding of a column on
  its way to storage and back is not modelled.
\<close>

datatype event =
    ThreadsCreate
  | ThreadsMessagesCreate js js
  | ThreadsRunsCreate js jsval
  | ThreadsRunsRetrieve js string
  | ThreadsMessagesList js
  | AxiosPostMessages jsval js
  | AxiosGetMedia js
  | InsertConversation conversation
  | UpdateConversationConfig js jsobject js
  | InsertMessage message

record world =
  conversations :: "conversation list"
  messages :: "message list"
  trace :: "event list"
  n_db :: nat
  n_http :: nat
  n_now :: nat
  n_uuid :: nat

section \<open>Effects: state passing with exceptions\<close>

text \<open>
  An \<open>async\<close> function is a function from the state before to its result and the
  state after; a rejected promise (a \<open>throw\<close>) is \<open>Inl\<close>, and the state it
  leaves behind is kept. \<open>io_bind\<close> is \<open>await\<close> followed by the rest of the
  function body.
\<close>

type_synonym ('s, 'a) io = "'s \<Rightarrow> (error + 'a) \<times> 's"

definition io_return :: "'a \<Rightarrow> ('s, 'a) io" where
  "io_return x s = (Inr x, s)"

definition io_throw :: "error \<Rightarrow> ('s, 'a) io" where
  "io_throw e s = (Inl e, s)"

definition io_lift :: "error + 'a \<Rightarrow> ('s, 'a) io" where
  "io_lift r s = (r, s)"

definition io_bind :: "('s, 'a) io \<Rightarrow> ('a \<Rightarrow> ('s, 'b) io) \<Rightarrow> ('s, 'b) io" where
  "io_bind m f s = (case m s of (Inl e, s') \<Rightarrow> (Inl e, s') | (Inr x, s') \<Rightarrow> f x s')"

text \<open>Reading the oracles.\<close>

definition new_Date :: "env \<Rightarrow> (world, int) io" where
  "new_Date env w = (Inr (clock env (n_now w)), w\<lparr>n_now := Suc (n_now w)\<rparr>)"

definition or_uuidv4 :: "env \<Rightarrow> jsval \<Rightarrow> (world, js) io" where
  "or_uuidv4 env v w =
     (if truthy v then (Inr (js_or v JNull), w)
      else (Inr (JStr (uuidv4 env (n_uuid w))), w\<lparr>n_uuid := Suc (n_uuid w)\<rparr>))"

definition or_new_Date :: "env \<Rightarrow> jsval \<Rightarrow> (world, js) io" where
  "or_new_Date env v w =
     (if truthy v then (Inr (js_or v JNull), w)
      else io_bind (new_Date env) (\<lambda>t. io_return (JDate t)) w)"

definition or_new_Date_toISOString :: "env \<Rightarrow> jsval \<Rightarrow> (world, js) io" where
  "or_new_Date_toISOString env v w =
     (if truthy v then (Inr (js_or v JNull), w)
      else io_bind (new_Date env) (\<lambda>t. io_return (JStr (toISOString env t))) w)"

text \<open>
  One storage operation of a model class: \<open>getConnection()\<close> stands before the
  \<open>try\<close>, so its failure propagates as it is; a failure of \<open>execute\<close> is caught
  and rethrown as \<open>new Error(prefix + error.message)\<close>.
\<close>

definition getConnection :: "env \<Rightarrow> (world, db_outcome) io" where
  "getConnection env w =
     (case db_outcome env (n_db w) of
        ConnectFails e \<Rightarrow> (Inl e, w\<lparr>n_db := Suc (n_db w)\<rparr>)
      | outcome \<Rightarrow> (Inr outcome, w\<lparr>n_db := Suc (n_db w)\<rparr>))"

definition execute :: "string \<Rightarrow> db_outcome \<Rightarrow> (world \<Rightarrow> 'a \<times> world) \<Rightarrow> (world, 'a) io" where
  "execute prefix outcome statement w =
     (case outcome of
        ExecuteFails e \<Rightarrow> (Inl (Error (prefix @ err_message e)), w)
      | _ \<Rightarrow> (case statement w of (x, w') \<Rightarrow> (Inr x, w')))"

subsection \<open>models/Conversation.js\<close>

record conversation_data =
  cd_fields :: jsobject
  cd_config :: "jsobject option"

definition Conversation_new :: "env \<Rightarrow> conversation_data \<Rightarrow> (world, conversation) io" where
  "Conversation_new env data =
     io_bind (or_uuidv4 env (cd_fields data ''id'')) (\<lambda>ident.
     io_bind (or_new_Date env (cd_fields data ''created_at'')) (\<lambda>created.
     io_bind (or_new_Date env (cd_fields data ''updated_at'')) (\<lambda>updated.
     io_return \<lparr>
       conv_id = ident,
       conv_wa_id = cd_fields data ''wa_id'',
       conv_user_id = js_or (cd_fields data ''user_id'') JNull,
       conv_patient_id = js_or (cd_fields data ''patient_id'') JNull,
       conv_type = js_or (cd_fields data ''type'') (JStr ''user_initiated''),
       conv_status = js_or (cd_fields data ''status'') (JStr ''new''),
       conv_config = (case cd_config data of Some c \<Rightarrow> c | None \<Rightarrow> Map.empty),
       conv_created_at = created,
       conv_updated_at = updated \<rparr>)))"

text \<open>A stored row, as \<open>SELECT *\<close> returns it (the config parsed back).\<close>

definition conversation_row_data :: "conversation \<Rightarrow> conversation_data" where
  "conversation_row_data c =
     \<lparr> cd_fields = (Map.empty(
          ''id'' \<mapsto> conv_id c,
          ''user_id'' \<mapsto> conv_user_id c,
          ''patient_id'' \<mapsto> conv_patient_id c,
          ''type'' \<mapsto> conv_type c,
          ''status'' \<mapsto> conv_status c,
          ''created_at'' \<mapsto> conv_created_at c,
          ''updated_at'' \<mapsto> conv_updated_at c))(''wa_id'' := conv_wa_id c),
        cd_config = Some (conv_config c) \<rparr>"

definition Conversation_create :: "env \<Rightarrow> conversation \<Rightarrow> (world, conversation) io" where
  "Conversation_create env this =
     io_bind (getConnection env) (\<lambda>connection.
       execute ''Failed to create conversation: '' connection
         (\<lambda>w. (this, w\<lparr>conversations := conversations w @ [this],
                          trace := trace w @ [InsertConversation this]\<rparr>)))"

definition Conversation_findById :: "env \<Rightarrow> jsval \<Rightarrow> (world, conversation option) io" where
  "Conversation_findById env ident =
     io_bind (getConnection env) (\<lambda>connection.
     io_bind (execute ''Failed to find conversation: '' connection
                (\<lambda>w. (filter (\<lambda>c. Some (conv_id c) = ident) (conversations w), w))) (\<lambda>rows.
       case rows of
         [] \<Rightarrow> io_return None
       | row # rest \<Rightarrow> io_bind (Conversation_new env (conversation_row_data row)) (\<lambda>c. io_return (Some c))))"

text \<open>\<open>ORDER BY created_at DESC LIMIT 1\<close>: the row created last; among rows of
  the same instant the engine may return any, the model takes the one stored first.\<close>

fun date_ms :: "js \<Rightarrow> int" where
  "date_ms (JDate t) = t"
| "date_ms v = 0"

fun latest_created :: "conversation list \<Rightarrow> conversation option" where
  "latest_created [] = None"
| "latest_created (c # cs) =
     (case latest_created cs of
        None \<Rightarrow> Some c
      | Some d \<Rightarrow> if date_ms (conv_created_at d) > date_ms (conv_created_at c) then Some d else Some c)"

definition Conversation_findByWaId :: "env \<Rightarrow> jsval \<Rightarrow> (world, conversation option) io" where
  "Conversation_findByWaId env waId =
     io_bind (getConnection env) (\<lambda>connection.
     io_bind (execute ''Failed to find conversation by wa_id: '' connection
                (\<lambda>w. (latest_created (filter (\<lambda>c. conv_wa_id c = waId) (conversations w)), w))) (\<lambda>rows.
       case rows of
         None \<Rightarrow> io_return None
       | Some row \<Rightarrow> io_bind (Conversation_new env (conversation_row_data row)) (\<lambda>c. io_return (Some c))))"

text \<open>
  \<open>updateConfig\<close> mutates the conversation object it is called on, so the state it
  runs in is the object together with the world. The merge and the new
  \<open>updated_at\<close> happen inside the \<open>try\<close>, before \<open>execute\<close>: they stay in the
  object when the statement fails.
\<close>

definition merge_config :: "jsobject \<Rightarrow> jsobject \<Rightarrow> jsobject" where
  "merge_config existing configData = existing ++ configData"

definition set_row_config :: "js \<Rightarrow> jsobject \<Rightarrow> js \<Rightarrow> conversation \<Rightarrow> conversation" where
  "set_row_config ident config updated row =
     (if conv_id row = ident then row\<lparr>conv_config := config, conv_updated_at := updated\<rparr> else row)"

definition Conversation_updateConfig ::
    "env \<Rightarrow> jsobject \<Rightarrow> (conversation \<times> world, unit) io" where
  "Conversation_updateConfig env configData = (\<lambda>(this, w).
     case getConnection env w of
       (Inl e, w1) \<Rightarrow> (Inl e, (this, w1))
     | (Inr connection, w1) \<Rightarrow>
         (case new_Date env w1 of
            (Inl e, w2) \<Rightarrow> (Inl e, (this, w2))
          | (Inr t, w2) \<Rightarrow>
              (let this' = this\<lparr>conv_config := merge_config (conv_config this) configData,
                               conv_updated_at := JDate t\<rparr>
               in case execute ''Failed to update conversation config: '' connection
                         (\<lambda>w. ((), w\<lparr>conversations :=
                                          map (set_row_config (conv_id this') (conv_config this') (conv_updated_at this'))
                                              (conversations w),
                                        trace := trace w @ [UpdateConversationConfig (conv_id this')
                                                    (conv_config this') (conv_updated_at this')]\<rparr>)) w2 of
                    (r, w3) \<Rightarrow> (r, (this', w3)))))"

subsection \<open>models/Message.js\<close>

definition Message_new :: "env \<Rightarrow> jsobject \<Rightarrow> (world, message) io" where
  "Message_new env data =
     io_bind (or_uuidv4 env (data ''id'')) (\<lambda>ident.
     io_bind (or_new_Date_toISOString env (data ''timestamp'')) (\<lambda>stamp.
     io_bind (or_new_Date env (data ''created_at'')) (\<lambda>created.
     io_bind (or_new_Date env (data ''updated_at'')) (\<lambda>updated.
     io_return \<lparr>
       m_id = ident,
       m_conversation_id = data ''conversation_id'',
       m_type = js_or (data ''type'') (JStr ''text''),
       m_wa_id = js_or (data ''wa_id'') (JStr []),
       m_timestamp = stamp,
       m_replying_to_mesage_id = js_or (data ''replying_to_mesage_id'') JNull,
       m_business_phone_number_id = js_or (data ''business_phone_number_id'') JNull,
       m_whatsapp_webhook_data = js_or (data ''whatsapp_webhook_data'') JNull,
       m_text = js_or (data ''text'') JNull,
       m_media = js_or (data ''media'') JNull,
       m_location = js_or (data ''location'') JNull,
       m_contact = js_or (data ''contact'') JNull,
       m_emoji = js_or (data ''emoji'') JNull,
       m_status = js_or (data ''status'') (JStr ''pending''),
       m_created_at = created,
       m_updated_at = updated \<rparr>))))"

text \<open>A stored row, as \<open>SELECT *\<close> returns it (the JSON columns parsed back).\<close>

definition message_row_data :: "message \<Rightarrow> jsobject" where
  "message_row_data m =
     (Map.empty(
        ''id'' \<mapsto> m_id m,
        ''type'' \<mapsto> m_type m,
        ''wa_id'' \<mapsto> m_wa_id m,
        ''timestamp'' \<mapsto> m_timestamp m,
        ''replying_to_mesage_id'' \<mapsto> m_replying_to_mesage_id m,
        ''business_phone_number_id'' \<mapsto> m_business_phone_number_id m,
        ''whatsapp_webhook_data'' \<mapsto> m_whatsapp_webhook_data m,
        ''text'' \<mapsto> m_text m,
        ''media'' \<mapsto> m_media m,
        ''location'' \<mapsto> m_location m,
        ''contact'' \<mapsto> m_contact m,
        ''emoji'' \<mapsto> m_emoji m,
        ''status'' \<mapsto> m_status m,
        ''created_at'' \<mapsto> m_created_at m,
        ''updated_at'' \<mapsto> m_updated_at m))(''conversation_id'' := m_conversation_id m)"

definition Message_create :: "env \<Rightarrow> message \<Rightarrow> (world, message) io" where
  "Message_create env this =
     io_bind (getConnection env) (\<lambda>connection.
       execute ''Failed to create message: '' connection
         (\<lambda>w. (this, w\<lparr>messages := messages w @ [this],
                          trace := trace w @ [InsertMessage this]\<rparr>)))"

definition Message_findById :: "env \<Rightarrow> jsval \<Rightarrow> (world, message option) io" where
  "Message_findById env ident =
     io_bind (getConnection env) (\<lambda>connection.
     io_bind (execute ''Failed to find message: '' connection
                (\<lambda>w. (filter (\<lambda>m. Some (m_id m) = ident) (messages w), w))) (\<lambda>rows.
       case rows of
         [] \<Rightarrow> io_return None
       | row # rest \<Rightarrow> io_bind (Message_new env (message_row_data row)) (\<lambda>m. io_return (Some m))))"

definition Message_createMediaMessage :: "env \<Rightarrow> jsobject \<Rightarrow> jsval \<Rightarrow> (world, message) io" where
  "Message_createMediaMessage env data mediaData =
     io_bind (Message_new env (data(''type'' \<mapsto> JStr ''media'', ''media'' := mediaData)))
       (Message_create env)"

definition Message_createBotMessage :: "env \<Rightarrow> jsobject \<Rightarrow> (world, message) io" where
  "Message_createBotMessage env data =
     io_bind (Message_new env (data(''type'' \<mapsto> JStr ''bot_answer'', ''status'' \<mapsto> JStr ''sent'')))
       (Message_create env)"

subsection \<open>services/database.js\<close>

text \<open>Each method of \<open>DatabaseService\<close> calls the model and rethrows what it
  throws.\<close>

definition createConversation :: "env \<Rightarrow> conversation_data \<Rightarrow> (world, conversation) io" where
  "createConversation env data = io_bind (Conversation_new env data) (Conversation_create env)"

definition findConversationById :: "env \<Rightarrow> jsval \<Rightarrow> (world, conversation option) io" where
  "findConversationById env ident = Conversation_findById env ident"

definition findConversationByWaId :: "env \<Rightarrow> jsval \<Rightarrow> (world, conversation option) io" where
  "findConversationByWaId env waId = Conversation_findByWaId env waId"

definition createMessage :: "env \<Rightarrow> jsobject \<Rightarrow> (world, message) io" where
  "createMessage env data = io_bind (Message_new env data) (Message_create env)"

definition createMediaMessage :: "env \<Rightarrow> jsobject \<Rightarrow> jsval \<Rightarrow> (world, message) io" where
  "createMediaMessage env data mediaData = Message_createMediaMessage env data mediaData"

definition createBotMessage :: "env \<Rightarrow> jsobject \<Rightarrow> (world, message) io" where
  "createBotMessage env data = Message_createBotMessage env data"

definition findMessageById :: "env \<Rightarrow> jsval \<Rightarrow> (world, message option) io" where
  "findMessageById env ident = Message_findById env ident"

subsection \<open>services/whatsapp.js\<close>

text \<open>\<open>a || b\<close>, \<open>v?.k\<close> and \<open>${v}\<close>.\<close>

definition js_or_val :: "jsval \<Rightarrow> jsval \<Rightarrow> jsval" where
  "js_or_val a b = (if truthy a then a else b)"

definition optional_member :: "jsval \<Rightarrow> string \<Rightarrow> jsval" where
  "optional_member v k = (case member v k of Inl e \<Rightarrow> None | Inr x \<Rightarrow> x)"

definition template :: "env \<Rightarrow> jsval \<Rightarrow> string" where
  "template env v = (case v of Some (JStr s) \<Rightarrow> s | _ \<Rightarrow> String env v)"

text \<open>\<open>new Date(parseInt(message.timestamp) * 1000).toISOString()\<close>: a
  \<open>RangeError\<close> when the date is invalid (not a number, or outside the range of
  \<open>Date\<close>).\<close>

definition message_timestamp :: "env \<Rightarrow> jsval \<Rightarrow> error + js" where
  "message_timestamp env message =
     (case member message ''timestamp'' of
        Inl e \<Rightarrow> Inl e
      | Inr ts \<Rightarrow>
          (case parseInt env ts of
             None \<Rightarrow> Inl (RangeError ''Invalid time value'')
           | Some n \<Rightarrow>
               if \<bar>n * 1000\<bar> \<le> 8640000000000000
               then Inr (JStr (toISOString env (n * 1000)))
               else Inl (RangeError ''Invalid time value'')))"

definition processTextMessage ::
    "env \<Rightarrow> conversation \<Rightarrow> jsval \<Rightarrow> jsval \<Rightarrow> js \<Rightarrow> (world, message) io" where
  "processTextMessage env conversation message businessPhoneNumberId rawData =
     io_bind (io_lift (member message ''id'')) (\<lambda>wa_id.
     io_bind (io_lift (message_timestamp env message)) (\<lambda>stamp.
     io_bind (io_lift (member message ''context'')) (\<lambda>ctx.
     io_bind (io_lift (member message ''text'')) (\<lambda>txt.
     io_bind (io_lift (member txt ''body'')) (\<lambda>body.
     createMessage env (Map.empty(
       ''conversation_id'' \<mapsto> conv_id conversation,
       ''type'' \<mapsto> JStr ''text'',
       ''wa_id'' := wa_id,
       ''timestamp'' \<mapsto> stamp,
       ''replying_to_mesage_id'' \<mapsto> js_or (optional_member ctx ''id'') JNull,
       ''business_phone_number_id'' := businessPhoneNumberId,
       ''whatsapp_webhook_data'' \<mapsto> rawData,
       ''text'' := body,
       ''status'' \<mapsto> JStr ''received'')))))))"

definition getMediaInfo :: "env \<Rightarrow> jsval \<Rightarrow> (world, jsval) io" where
  "getMediaInfo env media w =
     (if \<not> truthy media \<or> \<not> truthy (optional_member media ''id'')
      then (Inl (Error ''Invalid media data''), w)
      else (axios_get env (n_http w),
            w\<lparr>trace := trace w @ [AxiosGetMedia (js_or (optional_member media ''id'') JNull)],
              n_http := Suc (n_http w)\<rparr>))"

definition processMediaMessage ::
    "env \<Rightarrow> conversation \<Rightarrow> jsval \<Rightarrow> jsval \<Rightarrow> js \<Rightarrow> (world, message) io" where
  "processMediaMessage env conversation message businessPhoneNumberId rawData =
     io_bind (io_lift (member message ''type'')) (\<lambda>ty.
     io_bind (io_lift (member message (template env ty))) (\<lambda>media.
     io_bind (getMediaInfo env media) (\<lambda>mediaInfo.
     io_bind (io_lift (member mediaInfo ''url'')) (\<lambda>url.
     io_bind (io_lift (member mediaInfo ''mime_type'')) (\<lambda>mime_type.
     io_bind (io_lift (member mediaInfo ''filename'')) (\<lambda>filename.
     io_bind (io_lift (member mediaInfo ''sha256'')) (\<lambda>sha256.
     io_bind (io_lift (member mediaInfo ''filesize'')) (\<lambda>filesize.
     io_bind (io_lift (member message ''id'')) (\<lambda>wa_id.
     io_bind (io_lift (message_timestamp env message)) (\<lambda>stamp.
     io_bind (io_lift (member message ''context'')) (\<lambda>ctx.
     createMessage env (Map.empty(
       ''conversation_id'' \<mapsto> conv_id conversation,
       ''type'' := ty,
       ''wa_id'' := wa_id,
       ''timestamp'' \<mapsto> stamp,
       ''replying_to_mesage_id'' \<mapsto> js_or (optional_member ctx ''id'') JNull,
       ''business_phone_number_id'' := businessPhoneNumberId,
       ''whatsapp_webhook_data'' \<mapsto> rawData,
       ''media'' \<mapsto> obj [(''url'', url), (''mime_type'', mime_type),
                          (''filename'', Some (js_or filename JNull)),
                          (''sha256'', Some (js_or sha256 JNull)),
                          (''filesize'', Some (js_or filesize JNull))],
       ''status'' \<mapsto> JStr ''received'')))))))))))))"

definition processLocationMessage ::
    "env \<Rightarrow> conversation \<Rightarrow> jsval \<Rightarrow> jsval \<Rightarrow> js \<Rightarrow> (world, message) io" where
  "processLocationMessage env conversation message businessPhoneNumberId rawData =
     io_bind (io_lift (member message ''id'')) (\<lambda>wa_id.
     io_bind (io_lift (message_timestamp env message)) (\<lambda>stamp.
     io_bind (io_lift (member message ''context'')) (\<lambda>ctx.
     io_bind (io_lift (member message ''location'')) (\<lambda>location.
     createMessage env (Map.empty(
       ''conversation_id'' \<mapsto> conv_id conversation,
       ''type'' \<mapsto> JStr ''location'',
       ''wa_id'' := wa_id,
       ''timestamp'' \<mapsto> stamp,
       ''replying_to_mesage_id'' \<mapsto> js_or (optional_member ctx ''id'') JNull,
       ''business_phone_number_id'' := businessPhoneNumberId,
       ''whatsapp_webhook_data'' \<mapsto> rawData,
       ''location'' := location,
       ''status'' \<mapsto> JStr ''received''))))))"

definition processContactMessage ::
    "env \<Rightarrow> conversation \<Rightarrow> jsval \<Rightarrow> jsval \<Rightarrow> js \<Rightarrow> (world, message) io" where
  "processContactMessage env conversation message businessPhoneNumberId rawData =
     io_bind (io_lift (member message ''id'')) (\<lambda>wa_id.
     io_bind (io_lift (message_timestamp env message)) (\<lambda>stamp.
     io_bind (io_lift (member message ''context'')) (\<lambda>ctx.
     io_bind (io_lift (member message ''contacts'')) (\<lambda>contacts.
     createMessage env (Map.empty(
       ''conversation_id'' \<mapsto> conv_id conversation,
       ''type'' \<mapsto> JStr ''contact'',
       ''wa_id'' := wa_id,
       ''timestamp'' \<mapsto> stamp,
       ''replying_to_mesage_id'' \<mapsto> js_or (optional_member ctx ''id'') JNull,
       ''business_phone_number_id'' := businessPhoneNumberId,
       ''whatsapp_webhook_data'' \<mapsto> rawData,
       ''contact'' := contacts,
       ''status'' \<mapsto> JStr ''received''))))))"

text \<open>
  \<open>handleMessageEvent\<close>: the guard returns on an event without messages; after it
  only \<open>messageEvent.messages[0]\<close> is read.
\<close>

definition no_messages :: "jsval \<Rightarrow> bool" where
  "no_messages messageEvent =
     (\<not> truthy messageEvent
      \<or> \<not> truthy (optional_member messageEvent ''messages'')
      \<or> js_length (optional_member messageEvent ''messages'') = Inr (Some (JNum 0)))"

definition handleMessageEvent :: "env \<Rightarrow> jsval \<Rightarrow> (world, unit) io" where
  "handleMessageEvent env messageEvent =
     (if no_messages messageEvent then io_return ()
      else
        io_bind (io_lift (js_first (optional_member messageEvent ''messages''))) (\<lambda>message.
        io_bind (io_lift (member messageEvent ''metadata'')) (\<lambda>metadata.
        io_bind (io_lift (member message ''from'')) (\<lambda>waId.
        io_bind (io_lift (if truthy metadata then member metadata ''phone_number_id''
                          else Inr (Some JNull))) (\<lambda>businessPhoneNumberId.
        io_bind (findConversationByWaId env waId) (\<lambda>found.
        io_bind (case found of
                   Some c \<Rightarrow> io_return c
                 | None \<Rightarrow> createConversation env
                     \<lparr> cd_fields = Map.empty(''wa_id'' := waId,
                                                ''type'' \<mapsto> JStr ''user_initiated'',
                                                ''status'' \<mapsto> JStr ''new''),
                       cd_config = None \<rparr>) (\<lambda>conversation.
        io_bind (io_lift (member message ''type'')) (\<lambda>ty.
          if ty = Some (JStr ''text'') then
            io_bind (processTextMessage env conversation message businessPhoneNumberId
                       (js_or messageEvent JNull)) (\<lambda>m. io_return ())
          else if ty = Some (JStr ''image'') \<or> ty = Some (JStr ''document'')
                  \<or> ty = Some (JStr ''audio'') \<or> ty = Some (JStr ''video'') then
            io_bind (processMediaMessage env conversation message businessPhoneNumberId
                       (js_or messageEvent JNull)) (\<lambda>m. io_return ())
          else if ty = Some (JStr ''location'') then
            io_bind (processLocationMessage env conversation message businessPhoneNumberId
                       (js_or messageEvent JNull)) (\<lambda>m. io_return ())
          else if ty = Some (JStr ''contacts'') then
            io_bind (processContactMessage env conversation message businessPhoneNumberId
                       (js_or messageEvent JNull)) (\<lambda>m. io_return ())
          else io_return ()))))))))"

text \<open>\<open>processWebhook\<close>: the two nested \<open>for ... of\<close> loops, and the value it
  resolves to.\<close>

datatype webhook_result = Success | Failure string

fun for_changes :: "env \<Rightarrow> js list \<Rightarrow> (world, unit) io" where
  "for_changes env [] = io_return ()"
| "for_changes env (change # rest) =
     io_bind (io_lift (member (Some change) ''field'')) (\<lambda>field.
       if field = Some (JStr ''messages'') then
         io_bind (io_lift (member (Some change) ''value'')) (\<lambda>v.
         io_bind (handleMessageEvent env v) (\<lambda>u. for_changes env rest))
       else for_changes env rest)"

fun for_entries :: "env \<Rightarrow> js list \<Rightarrow> (world, unit) io" where
  "for_entries env [] = io_return ()"
| "for_entries env (entry # rest) =
     io_bind (io_lift (member (Some entry) ''changes'')) (\<lambda>changes.
     io_bind (io_lift (iterate changes)) (\<lambda>cs.
     io_bind (for_changes env cs) (\<lambda>u. for_entries env rest)))"

definition processWebhook :: "env \<Rightarrow> jsval \<Rightarrow> (world, webhook_result) io" where
  "processWebhook env webhookData =
     (if \<not> truthy webhookData \<or> \<not> truthy (optional_member webhookData ''entry'')
      then io_return (Failure ''Invalid webhook data'')
      else
        io_bind (io_lift (iterate (optional_member webhookData ''entry''))) (\<lambda>es.
        io_bind (for_entries env es) (\<lambda>u. io_return Success)))"

text \<open>Outbound messages: one POST to the platform, then one stored row.\<close>

definition post_messages :: "env \<Rightarrow> jsval \<Rightarrow> js \<Rightarrow> (world, jsval) io" where
  "post_messages env phoneNumberId payload w =
     (axios_post env (n_http w),
      w\<lparr>trace := trace w @ [AxiosPostMessages phoneNumberId payload], n_http := Suc (n_http w)\<rparr>)"

text \<open>\<open>response.data.messages[0].id\<close>.\<close>

definition response_message_id :: "jsval \<Rightarrow> error + jsval" where
  "response_message_id data =
     (case member data ''messages'' of
        Inl e \<Rightarrow> Inl e
      | Inr ms \<Rightarrow> (case js_first ms of Inl e \<Rightarrow> Inl e | Inr m \<Rightarrow> member m ''id''))"

definition sendTextMessage :: "env \<Rightarrow> jsval \<Rightarrow> jsval \<Rightarrow> jsval \<Rightarrow> jsval \<Rightarrow> (world, message) io" where
  "sendTextMessage env to txt phoneNumberId conversationId =
     io_bind (post_messages env phoneNumberId
                (obj [(''messaging_product'', Some (JStr ''whatsapp'')),
                      (''recipient_type'', Some (JStr ''individual'')),
                      (''to'', to),
                      (''type'', Some (JStr ''text'')),
                      (''text'', Some (obj [(''body'', txt)]))])) (\<lambda>data.
     io_bind (io_lift (response_message_id data)) (\<lambda>wa_id.
     io_bind (new_Date env) (\<lambda>t.
     createBotMessage env (Map.empty(
       ''conversation_id'' := conversationId,
       ''type'' \<mapsto> JStr ''bot_answer'',
       ''wa_id'' := wa_id,
       ''timestamp'' \<mapsto> JStr (toISOString env t),
       ''text'' := txt,
       ''status'' \<mapsto> JStr ''sent'')))))"

definition sendMediaMessage :: "env \<Rightarrow> jsval \<Rightarrow> jsval \<Rightarrow> jsval \<Rightarrow> jsval \<Rightarrow> (world, message) io" where
  "sendMediaMessage env to mediaData phoneNumberId conversationId =
     io_bind (io_lift (member mediaData ''type'')) (\<lambda>ty.
     io_bind (io_lift (member mediaData ''url'')) (\<lambda>url.
     io_bind (io_lift (member mediaData ''caption'')) (\<lambda>caption.
     io_bind (post_messages env phoneNumberId
                (obj [(''messaging_product'', Some (JStr ''whatsapp'')),
                      (''recipient_type'', Some (JStr ''individual'')),
                      (''to'', to),
                      (''type'', ty),
                      (template env ty, Some (obj [(''link'', url),
                                                  (''caption'', Some (js_or caption (JStr [])))]))])) (\<lambda>data.
     io_bind (io_lift (response_message_id data)) (\<lambda>wa_id.
     io_bind (new_Date env) (\<lambda>t.
     createMediaMessage env
       (Map.empty(
          ''conversation_id'' := conversationId,
          ''type'' \<mapsto> JStr ''bot_answer'',
          ''wa_id'' := wa_id,
          ''timestamp'' \<mapsto> JStr (toISOString env t),
          ''status'' \<mapsto> JStr ''sent''))
       (Some (obj [(''url'', url),
                   (''mime_type'', Some (JStr (template env ty @ ''/'' @
                        (if ty = Some (JStr ''document'') then ''pdf'' else ''jpeg'')))),
                   (''caption'', Some (js_or caption (JStr [])))]))))))))"

subsection \<open>services/openai.js\<close>

definition createThread :: "env \<Rightarrow> (world, string) io" where
  "createThread env w =
     (threads_create env (n_http w),
      w\<lparr>trace := trace w @ [ThreadsCreate], n_http := Suc (n_http w)\<rparr>)"

definition OpenAIService_createMessage :: "env \<Rightarrow> js \<Rightarrow> js \<Rightarrow> (world, unit) io" where
  "OpenAIService_createMessage env threadId content w =
     (threads_messages_create env (n_http w),
      w\<lparr>trace := trace w @ [ThreadsMessagesCreate threadId content], n_http := Suc (n_http w)\<rparr>)"

definition this_assistantId :: "env \<Rightarrow> jsval" where
  "this_assistantId env = map_option JStr (OPENAI_ASSISTANT_ID env)"

definition runAssistant :: "env \<Rightarrow> js \<Rightarrow> jsval \<Rightarrow> (world, run) io" where
  "runAssistant env threadId options_assistantId w =
     (threads_runs_create env (n_http w),
      w\<lparr>trace := trace w @ [ThreadsRunsCreate threadId
                                (js_or_val options_assistantId (this_assistantId env))],
        n_http := Suc (n_http w)\<rparr>)"

definition getRunStatus :: "env \<Rightarrow> js \<Rightarrow> string \<Rightarrow> (world, run) io" where
  "getRunStatus env threadId runId w =
     (threads_runs_retrieve env (n_http w),
      w\<lparr>trace := trace w @ [ThreadsRunsRetrieve threadId runId], n_http := Suc (n_http w)\<rparr>)"

text \<open>
  \<open>waitForRun\<close>: the \<open>while\<close> loop runs as long as the status is one of the three
  and the clock has not passed the budget. Nothing bounds the number of rounds, so
  the loop is a partial function: \<open>None\<close> is the call that never returns. The
  \<open>setTimeout\<close> of \<open>interval\<close> is visible only through the next clock reading.
\<close>

definition in_progress :: "run \<Rightarrow> bool" where
  "in_progress r = (run_status r \<in> set [''queued'', ''in_progress'', ''cancelling''])"

partial_function (option) waitForRun_loop ::
    "env \<Rightarrow> js \<Rightarrow> string \<Rightarrow> nat \<Rightarrow> nat \<Rightarrow> int \<Rightarrow> run \<Rightarrow> world \<Rightarrow> ((error + run) \<times> world) option" where
  "waitForRun_loop env threadId runId interval timeout startTime r w =
     (if in_progress r then
        (case new_Date env w of
           (Inl e, w1) \<Rightarrow> Some (Inl e, w1)
         | (Inr now, w1) \<Rightarrow>
             if now - startTime > int timeout
             then Some (Inl (Error (''Run '' @ runId @ '' timeout after ''
                                     @ string_of_nat timeout @ ''ms'')), w1)
             else (case getRunStatus env threadId runId w1 of
                     (Inl e, w2) \<Rightarrow> Some (Inl e, w2)
                   | (Inr r', w2) \<Rightarrow>
                       waitForRun_loop env threadId runId interval timeout startTime r' w2))
      else Some (Inr r, w))"

definition waitForRun ::
    "env \<Rightarrow> js \<Rightarrow> string \<Rightarrow> nat \<Rightarrow> nat \<Rightarrow> world \<Rightarrow> ((error + run) \<times> world) option" where
  "waitForRun env threadId runId interval timeout w =
     (case new_Date env w of
        (Inl e, w1) \<Rightarrow> Some (Inl e, w1)
      | (Inr startTime, w1) \<Rightarrow>
          (case getRunStatus env threadId runId w1 of
             (Inl e, w2) \<Rightarrow> Some (Inl e, w2)
           | (Inr r, w2) \<Rightarrow> waitForRun_loop env threadId runId interval timeout startTime r w2))"

definition getMessages :: "env \<Rightarrow> js \<Rightarrow> (world, thread_message list) io" where
  "getMessages env threadId w =
     (threads_messages_list env (n_http w),
      w\<lparr>trace := trace w @ [ThreadsMessagesList threadId], n_http := Suc (n_http w)\<rparr>)"

text \<open>
  \<open>new Date(v)\<close> for a number \<open>v\<close>, as its time value: the date is invalid, its
  time value \<open>NaN\<close> (here \<open>None\<close>), when \<open>v\<close> lies outside the range of
  \<open>Date\<close>, 8640000000000000 ms on either side of the epoch. The difference
  of two dates is \<open>NaN\<close> when either is invalid. The difference of two valid
  dates is taken exactly here; the engine rounds it to a double, which has the
  same sign and is zero for the same dates, and a sort reads nothing else of it.
\<close>

definition Date_time_value :: "int \<Rightarrow> int option" where
  "Date_time_value v = (if \<bar>v\<bar> \<le> 8640000000000000 then Some v else None)"

definition Date_minus :: "int option \<Rightarrow> int option \<Rightarrow> int option" where
  "Date_minus x y = (case x of None \<Rightarrow> None
                     | Some tx \<Rightarrow> (case y of None \<Rightarrow> None | Some ty \<Rightarrow> Some (tx - ty)))"

text \<open>The comparator of \<open>getLastAssistantMessage\<close>,
  \<open>(a, b) => new Date(b.created_at) - new Date(a.created_at)\<close>.\<close>

definition compare_created_at :: "thread_message \<Rightarrow> thread_message \<Rightarrow> int option" where
  "compare_created_at a b =
     Date_minus (Date_time_value (tm_created_at b)) (Date_time_value (tm_created_at a))"

text \<open>
  \<open>Array.prototype.sort(comparefn)\<close>. The engine reads a comparator through
  \<open>SortCompare\<close>, which takes \<open>NaN\<close> for \<open>+0\<close>. The language standard fixes
  the result when \<open>comparefn\<close> is a consistent comparator for the elements: it
  never returns \<open>NaN\<close> on them, and the relations read from its sign are reflexive,
  symmetric and transitive. The result is then the stable sort, ascending in the
  comparator, elements that compare equal staying in their order. With any other
  comparator the standard leaves the order to the engine, here \<open>engine_sort\<close>.
\<close>

definition SortCompare :: "('a \<Rightarrow> 'a \<Rightarrow> int option) \<Rightarrow> 'a \<Rightarrow> 'a \<Rightarrow> int" where
  "SortCompare comparefn x y = (case comparefn x y of None \<Rightarrow> 0 | Some v \<Rightarrow> v)"

definition consistent_comparator :: "('a \<Rightarrow> 'a \<Rightarrow> int option) \<Rightarrow> 'a list \<Rightarrow> bool" where
  "consistent_comparator comparefn xs \<longleftrightarrow>
     (\<forall>a \<in> set xs. \<forall>b \<in> set xs. comparefn a b \<noteq> None)
     \<and> (\<forall>a \<in> set xs. SortCompare comparefn a a = 0)
     \<and> (\<forall>a \<in> set xs. \<forall>b \<in> set xs.
           SortCompare comparefn a b = 0 \<longrightarrow> SortCompare comparefn b a = 0)
     \<and> (\<forall>a \<in> set xs. \<forall>b \<in> set xs. \<forall>c \<in> set xs.
           (SortCompare comparefn a b = 0 \<and> SortCompare comparefn b c = 0
              \<longrightarrow> SortCompare comparefn a c = 0)
           \<and> (SortCompare comparefn a b < 0 \<and> SortCompare comparefn b c < 0
                \<longrightarrow> SortCompare comparefn a c < 0)
           \<and> (SortCompare comparefn a b > 0 \<and> SortCompare comparefn b c > 0
                \<longrightarrow> SortCompare comparefn a c > 0))"

fun insert_sorted :: "('a \<Rightarrow> 'a \<Rightarrow> int) \<Rightarrow> 'a \<Rightarrow> 'a list \<Rightarrow> 'a list" where
  "insert_sorted cmp x [] = [x]"
| "insert_sorted cmp x (y # ys) =
     (if cmp x y \<le> 0 then x # y # ys else y # insert_sorted cmp x ys)"

definition stable_sort :: "('a \<Rightarrow> 'a \<Rightarrow> int) \<Rightarrow> 'a list \<Rightarrow> 'a list" where
  "stable_sort cmp xs = foldr (insert_sorted cmp) xs []"

definition Array_sort ::
    "env \<Rightarrow> (thread_message \<Rightarrow> thread_message \<Rightarrow> int option) \<Rightarrow> thread_message list
       \<Rightarrow> thread_message list" where
  "Array_sort env comparefn xs =
     (if consistent_comparator comparefn xs then stable_sort (SortCompare comparefn) xs
      else engine_sort env (SortCompare comparefn) xs)"

definition getLastAssistantMessage :: "env \<Rightarrow> js \<Rightarrow> (world, thread_message option) io" where
  "getLastAssistantMessage env threadId =
     io_bind (getMessages env threadId) (\<lambda>ms.
       case Array_sort env compare_created_at (filter (\<lambda>msg. tm_role msg = ''assistant'') ms) of
         [] \<Rightarrow> io_return None
       | newest # older \<Rightarrow> io_return (Some newest))"

text \<open>
  \<open>processConversation\<close> works on the conversation object it is given. The local
  \<open>config\<close> is that object's own config: \<open>config.thread_id = threadId\<close> writes
  into the conversation before \<open>updateConfig\<close> runs, and \<open>config.assistant_openai_id\<close>
  reads what the conversation held on entry. \<open>waitForRun\<close> is called with its
  defaults, an interval of 1000 ms and a timeout of 120000 ms. Since \<open>waitForRun\<close>
  may not return, the function is written in two parts: \<open>start_run\<close> is its body
  up to the call of \<open>waitForRun\<close> (it yields the thread id and the created run),
  and \<open>processConversation\<close> continues from there.
\<close>

definition in_world :: "(world, 'a) io \<Rightarrow> (conversation \<times> world, 'a) io" where
  "in_world m = (\<lambda>(conversation, w). case m w of (r, w') \<Rightarrow> (r, (conversation, w')))"

definition set_config :: "string \<Rightarrow> js \<Rightarrow> (conversation \<times> world, unit) io" where
  "set_config k v = (\<lambda>(conversation, w).
     (Inr (), (conversation\<lparr>conv_config := (conv_config conversation)(k \<mapsto> v)\<rparr>, w)))"

definition start_run :: "env \<Rightarrow> js \<Rightarrow> jsobject \<Rightarrow> (conversation \<times> world, js \<times> run) io" where
  "start_run env message config =
     io_bind (if \<not> truthy (config ''thread_id'') then
                io_bind (in_world (createThread env)) (\<lambda>thread_id.
                io_bind (set_config ''thread_id'' (JStr thread_id)) (\<lambda>u.
                io_bind (Conversation_updateConfig env (Map.empty(''thread_id'' \<mapsto> JStr thread_id))) (\<lambda>u.
                io_return (JStr thread_id))))
              else io_return (js_or (config ''thread_id'') JNull)) (\<lambda>threadId.
     io_bind (in_world (OpenAIService_createMessage env threadId message)) (\<lambda>u.
     io_bind (in_world (runAssistant env threadId
                (js_or_val (config ''assistant_openai_id'') (this_assistantId env)))) (\<lambda>r.
     io_bind (Conversation_updateConfig env (Map.empty(''run_id'' \<mapsto> JStr (run_id r)))) (\<lambda>u.
     io_return (threadId, r)))))"

definition processConversation ::
    "env \<Rightarrow> js \<Rightarrow> conversation \<times> world
       \<Rightarrow> ((error + thread_message option) \<times> conversation \<times> world) option" where
  "processConversation env message = (\<lambda>(conversation, w).
     case start_run env message (conv_config conversation) (conversation, w) of
       (Inl e, s) \<Rightarrow> Some (Inl e, s)
     | (Inr (threadId, r), (conversation', w1)) \<Rightarrow>
         (case waitForRun env threadId (run_id r) 1000 120000 w1 of
            None \<Rightarrow> None
          | Some (Inl e, w2) \<Rightarrow> Some (Inl e, (conversation', w2))
          | Some (Inr completed, w2) \<Rightarrow>
              Some (in_world (getLastAssistantMessage env threadId) (conversation', w2))))"

subsection \<open>api/controllers/whatsapp.js\<close>

text \<open>A handler either sends a response or passes an error to \<open>next\<close>
  (\<open>Inl\<close>).\<close>

record response =
  res_status :: nat
  res_body :: jsval

definition verifyWebhook :: "env \<Rightarrow> jsobject \<Rightarrow> response" where
  "verifyWebhook env query =
     (let mode = query ''hub.mode'';
          token = query ''hub.verify_token'';
          challenge = query ''hub.challenge''
      in if truthy mode \<and> truthy token then
           if mode = Some (JStr ''subscribe'') \<and> token = map_option JStr (WHATSAPP_VERIFY_TOKEN env)
           then \<lparr> res_status = 200, res_body = challenge \<rparr>
           else \<lparr> res_status = 403, res_body = Some (JStr ''Forbidden'') \<rparr>
         else \<lparr> res_status = 400, res_body = Some (JStr ''Bad Request'') \<rparr>)"

definition handleWebhook :: "env \<Rightarrow> jsval \<Rightarrow> (world, response) io" where
  "handleWebhook env body =
     io_bind (processWebhook env body) (\<lambda>result.
       io_return \<lparr> res_status = 200, res_body = Some (obj [(''success'', Some (JBool True))]) \<rparr>)"

definition responseText :: "content_part list \<Rightarrow> string" where
  "responseText content = concat (map part_text_value (filter (\<lambda>p. part_type p = ''text'') content))"

text \<open>
  \<open>processMessageWithAI\<close>, in two parts for the same reason: \<open>lookup_for_AI\<close> is
  its body up to the call of \<open>processConversation\<close> (the parameter check and the
  two lookups), and \<open>processMessageWithAI\<close> continues from there.
\<close>

definition lookup_for_AI :: "env \<Rightarrow> jsval \<Rightarrow> (world, (jsval \<times> jsval) \<times> conversation \<times> message) io" where
  "lookup_for_AI env body =
     io_bind (io_lift (member body ''messageId'')) (\<lambda>messageId.
     io_bind (io_lift (member body ''conversationId'')) (\<lambda>conversationId.
     io_bind (io_lift (member body ''phoneNumberId'')) (\<lambda>phoneNumberId.
       if \<not> truthy messageId \<or> \<not> truthy conversationId \<or> \<not> truthy phoneNumberId
       then io_throw (ApiError 400 ''Missing required parameters'')
       else
         io_bind (findConversationById env conversationId) (\<lambda>found.
           case found of
             None \<Rightarrow> io_throw (ApiError 404 ''Conversation not found'')
           | Some conversation \<Rightarrow>
               io_bind (findMessageById env messageId) (\<lambda>found_message.
                 case found_message of
                   None \<Rightarrow> io_throw (ApiError 404 ''Message not found'')
                 | Some message \<Rightarrow>
                     io_return ((conversationId, phoneNumberId), conversation, message))))))"

definition processMessageWithAI :: "env \<Rightarrow> jsval \<Rightarrow> world \<Rightarrow> ((error + response) \<times> world) option" where
  "processMessageWithAI env body w =
     (case lookup_for_AI env body w of
        (Inl e, w1) \<Rightarrow> Some (Inl e, w1)
      | (Inr ((conversationId, phoneNumberId), conversation, message), w1) \<Rightarrow>
          (case processConversation env (m_text message) (conversation, w1) of
             None \<Rightarrow> None
           | Some (Inl e, (conversation', w2)) \<Rightarrow> Some (Inl e, w2)
           | Some (Inr aiResponse, (conversation', w2)) \<Rightarrow>
               (case aiResponse of
                  None \<Rightarrow> Some (Inl (ApiError 500 ''No response from AI''), w2)
                | Some reply \<Rightarrow>
                    if tm_content reply = []
                    then Some (Inl (ApiError 500 ''No response from AI''), w2)
                    else Some (io_bind (sendTextMessage env (conv_wa_id conversation')
                                          (Some (JStr (responseText (tm_content reply))))
                                          phoneNumberId conversationId) (\<lambda>result.
                                 io_return \<lparr> res_status = 200,
                                             res_body = Some (obj [(''success'', Some (JBool True)),
                                                                   (''messageId'', Some (m_id result))]) \<rparr>)
                               w2))))"

section \<open>Example environments\<close>

text \<open>
  An environment in which every storage operation and every remote call succeeds: the
  clock advances one second per reading, the run is reported completed by the first
  poll, the thread holds no messages, and the engine sorts by insertion whatever the
  comparator. The examples below change single fields of it.
\<close>

definition env_ok :: env where
  "env_ok = \<lparr>
     db_outcome = (\<lambda>i. DbOk),
     clock = (\<lambda>i. 1000 * int i),
     uuidv4 = (\<lambda>i. ''uuid-'' @ string_of_nat i),
     parseInt = (\<lambda>v. if v = Some (JStr ''1700000000'') then Some 1700000000 else None),
     toISOString = (\<lambda>t. if t = 1700000000000 then ''2023-11-14T22:13:20.000Z''
                         else ''1970-01-01T00:00:00.000Z''),
     String = (\<lambda>v. ''undefined''),
     threads_create = (\<lambda>i. Inr ''thread_1''),
     threads_messages_create = (\<lambda>i. Inr ()),
     threads_runs_create = (\<lambda>i. Inr \<lparr> run_id = ''run_1'', run_status = ''queued'' \<rparr>),
     threads_runs_retrieve = (\<lambda>i. Inr \<lparr> run_id = ''run_1'', run_status = ''completed'' \<rparr>),
     threads_messages_list = (\<lambda>i. Inr []),
     axios_post = (\<lambda>i. Inr (Some (JObj [(''messages'', JArr [JObj [(''id'', JStr ''wamid.1'')]])]))),
     axios_get = (\<lambda>i. Inr (Some (JObj [(''url'', JStr ''https://cdn.example/m1''),
                                         (''mime_type'', JStr ''image/png'')]))),
     engine_sort = stable_sort,
     WHATSAPP_VERIFY_TOKEN = Some ''s3cret'',
     OPENAI_ASSISTANT_ID = Some ''asst_1'' \<rparr>"

definition world0 :: world where
  "world0 = \<lparr> conversations = [], messages = [], trace = [],
              n_db = 0, n_http = 0, n_now = 0, n_uuid = 0 \<rparr>"

text \<open>A stored conversation without a thread, and the text message it received.\<close>

definition conv0 :: conversation where
  "conv0 = \<lparr>
     conv_id = JStr ''conv-1'',
     conv_wa_id = Some (JStr ''5511''),
     conv_user_id = JNull,
     conv_patient_id = JNull,
     conv_type = JStr ''user_initiated'',
     conv_status = JStr ''new'',
     conv_config = Map.empty,
     conv_created_at = JDate 1700000000000,
     conv_updated_at = JDate 1700000000000 \<rparr>"

definition msg0 :: message where
  "msg0 = \<lparr>
     m_id = JStr ''msg-1'',
     m_conversation_id = Some (JStr ''conv-1''),
     m_type = JStr ''text'',
     m_wa_id = JStr ''wamid.A'',
     m_timestamp = JStr ''2023-11-14T22:13:20.000Z'',
     m_replying_to_mesage_id = JNull,
     m_business_phone_number_id = JStr ''1055'',
     m_whatsapp_webhook_data = JNull,
     m_text = JStr ''hello'',
     m_media = JNull,
     m_location = JNull,
     m_contact = JNull,
     m_emoji = JNull,
     m_status = JStr ''received'',
     m_created_at = JDate 1700000000000,
     m_updated_at = JDate 1700000000000 \<rparr>"

definition world1 :: world where
  "world1 = world0\<lparr>conversations := [conv0], messages := [msg0]\<rparr>"

text \<open>A thread with two assistant messages between the user's.\<close>

definition thread0 :: "thread_message list" where
  "thread0 = [
     \<lparr> tm_role = ''assistant'', tm_created_at = 1700000005,
       tm_content = [\<lparr> part_type = ''text'', part_text_value = ''Hi, how can I help?'' \<rparr>] \<rparr>,
     \<lparr> tm_role = ''user'', tm_created_at = 1700000009,
       tm_content = [\<lparr> part_type = ''text'', part_text_value = ''and a question'' \<rparr>] \<rparr>,
     \<lparr> tm_role = ''assistant'', tm_created_at = 1700000007,
       tm_content = [\<lparr> part_type = ''text'', part_text_value = ''Here is the answer.'' \<rparr>] \<rparr>,
     \<lparr> tm_role = ''user'', tm_created_at = 1700000001,
       tm_content = [\<lparr> part_type = ''text'', part_text_value = ''hello'' \<rparr>] \<rparr>]"

definition env_thread :: env where
  "env_thread = env_ok\<lparr>threads_messages_list := (\<lambda>i. Inr thread0)\<rparr>"

text \<open>A thread whose second assistant message carries a creation time outside the
  range of \<open>Date\<close>.\<close>

definition thread_late :: "thread_message list" where
  "thread_late = [
     \<lparr> tm_role = ''assistant'', tm_created_at = 1,
       tm_content = [\<lparr> part_type = ''text'', part_text_value = ''first'' \<rparr>] \<rparr>,
     \<lparr> tm_role = ''assistant'', tm_created_at = 9000000000000000,
       tm_content = [\<lparr> part_type = ''text'', part_text_value = ''second'' \<rparr>] \<rparr>]"

definition env_late :: env where
  "env_late = env_ok\<lparr>threads_messages_list := (\<lambda>i. Inr thread_late)\<rparr>"

text \<open>
  Webhook payloads. Three changes of the field \<open>messages\<close>: a text message, an image
  message without its \<open>image\<close> object, and another text message; and one change that
  carries two text messages.
\<close>

definition text_message :: "string \<Rightarrow> string \<Rightarrow> js" where
  "text_message wamid body =
     JObj [(''from'', JStr ''5511''), (''id'', JStr wamid), (''timestamp'', JStr ''1700000000''),
           (''type'', JStr ''text''), (''text'', JObj [(''body'', JStr body)])]"

definition messages_change :: "js list \<Rightarrow> js" where
  "messages_change ms =
     JObj [(''field'', JStr ''messages''),
           (''value'', JObj [(''messaging_product'', JStr ''whatsapp''),
                             (''metadata'', JObj [(''phone_number_id'', JStr ''1055'')]),
                             (''messages'', JArr ms)])]"

definition image_without_media :: js where
  "image_without_media =
     JObj [(''from'', JStr ''5511''), (''id'', JStr ''wamid.B''), (''timestamp'', JStr ''1700000000''),
           (''type'', JStr ''image'')]"

definition entry_abort :: js where
  "entry_abort =
     JObj [(''id'', JStr ''waba-1''),
           (''changes'', JArr ([messages_change [text_message ''wamid.A'' ''hello'']]
                               @ messages_change [image_without_media]
                               # [messages_change [text_message ''wamid.C'' ''still there?'']]))]"

definition envelope_abort :: js where
  "envelope_abort =
     JObj [(''object'', JStr ''whatsapp_business_account''), (''entry'', JArr ([] @ entry_abort # []))]"






text \<open>
  A request to answer the stored message with the assistant, and three environments
  for it: one where the run is in progress for two polls and then completed, with the
  thread above; one where the run fails and the thread stays empty; one where the run
  stays in progress while the clock advances 50 seconds per reading. The states
  \<open>started_reply\<close> and \<open>started_busy\<close> are those in which polling begins,
  \<open>polled_reply\<close> the one in which it has ended after three status retrievals.
\<close>

definition body1 :: js where
  "body1 = JObj [(''messageId'', JStr ''msg-1''), (''conversationId'', JStr ''conv-1''),
                 (''phoneNumberId'', JStr ''1055'')]"

definition polls_then_completed :: "nat \<Rightarrow> run" where
  "polls_then_completed k =
     \<lparr> run_id = ''run_1'', run_status = (if k < 2 then ''in_progress'' else ''completed'') \<rparr>"

definition env_reply :: env where
  "env_reply = env_thread\<lparr>threads_runs_retrieve := (\<lambda>i. Inr (polls_then_completed (i - 3)))\<rparr>"

text \<open>The same with a thread whose one assistant message has no content part.\<close>

definition thread_blank :: "thread_message list" where
  "thread_blank = [\<lparr> tm_role = ''assistant'', tm_created_at = 1700000011, tm_content = [] \<rparr>]"

definition env_blank :: env where
  "env_blank = env_reply\<lparr>threads_messages_list := (\<lambda>i. Inr thread_blank)\<rparr>"

definition env_failed :: env where
  "env_failed = env_ok\<lparr>threads_runs_retrieve :=
                          (\<lambda>i. Inr \<lparr> run_id = ''run_1'', run_status = ''failed'' \<rparr>)\<rparr>"

definition env_busy :: env where
  "env_busy = env_ok\<lparr>threads_runs_retrieve :=
                         (\<lambda>i. Inr \<lparr> run_id = ''run_1'', run_status = ''in_progress'' \<rparr>),
                      clock := (\<lambda>i. 50000 * int i)\<rparr>"

definition started_reply :: "conversation \<times> world" where
  "started_reply =
     snd (start_run env_reply (m_text msg0) (conv_config conv0) (conv0, world1\<lparr>n_db := 2\<rparr>))"

definition polled_reply :: world where
  "polled_reply =
     (snd started_reply)\<lparr>
        trace := trace (snd started_reply)
                   @ replicate (Suc 2) (ThreadsRunsRetrieve (JStr ''thread_1'') ''run_1''),
        n_http := n_http (snd started_reply) + Suc 2,
        n_now := n_now (snd started_reply) + Suc 2\<rparr>"

definition started_busy :: "conversation \<times> world" where
  "started_busy =
     snd (start_run env_busy (m_text msg0) (conv_config conv0) (conv0, world1\<lparr>n_db := 2\<rparr>))"

section \<open>Notions used in the statements and proofs\<close>

text \<open>Two worlds with the same tables, the same trace and the same storage and HTTP
  counters: what a constructor leaves unchanged (it reads only the clock and the
  identifier source).\<close>

definition same_store :: "world \<Rightarrow> world \<Rightarrow> bool" where
  "same_store w w' \<longleftrightarrow>
     conversations w' = conversations w \<and> messages w' = messages w \<and> trace w' = trace w
     \<and> n_db w' = n_db w \<and> n_http w' = n_http w"

text \<open>The message kinds the specification's data model enumerates.\<close>

definition message_kinds :: "js list" where
  "message_kinds = map JStr [''text'', ''image'', ''document'', ''audio'', ''video'',
                             ''location'', ''contact'', ''bot_answer'']"














text \<open>Steps of the orchestration that leave the conversation's identity and the
  message table as they were.\<close>

definition same_conversation :: "conversation \<times> world \<Rightarrow> conversation \<times> world \<Rightarrow> bool" where
  "same_conversation s s' \<longleftrightarrow>
     conv_id (fst s') = conv_id (fst s) \<and> conv_wa_id (fst s') = conv_wa_id (fst s)
     \<and> messages (snd s') = messages (snd s)"

section \<open>Basic facts\<close>

named_theorems io_defs

lemmas [io_defs] = io_bind_def io_return_def io_throw_def io_lift_def new_Date_def
  or_uuidv4_def or_new_Date_def or_new_Date_toISOString_def getConnection_def execute_def

lemma io_bind_return [simp]: "io_bind (io_return x) f = f x"
  by (rule ext) (simp add: io_bind_def io_return_def)

lemma io_bind_throw [simp]: "io_bind (io_throw e) f = io_throw e"
  by (rule ext) (simp add: io_bind_def io_throw_def)

lemma io_bind_lift_Inr [simp]: "io_bind (io_lift (Inr x)) f = f x"
  by (rule ext) (simp add: io_bind_def io_lift_def)

lemma io_bind_lift_Inl [simp]: "io_bind (io_lift (Inl e)) f = io_throw e"
  by (rule ext) (simp add: io_bind_def io_lift_def io_throw_def)

lemma io_bind_assoc: "io_bind (io_bind m f) g = io_bind m (\<lambda>x. io_bind (f x) g)"
  by (rule ext) (simp add: io_bind_def split: prod.splits sum.splits)

lemma js_or_falsy: "\<not> truthy v \<Longrightarrow> js_or v d = d"
  by (cases v) simp_all

lemma member_defined: "member v k = Inr x \<Longrightarrow> \<exists>y. member v k' = Inr y"
  by (cases v; cases "the v") auto

lemma same_store_refl [simp]: "same_store w w"
  by (simp add: same_store_def)

lemma getConnection_ok:
  "db_outcome env (n_db w) = DbOk \<Longrightarrow> getConnection env w = (Inr DbOk, w\<lparr>n_db := Suc (n_db w)\<rparr>)"
  by (simp add: getConnection_def)

lemma execute_ok: "execute prefix DbOk statement w = (Inr (fst (statement w)), snd (statement w))"
  by (simp add: execute_def split: prod.splits)

subsection \<open>Constructors\<close>

lemma or_uuidv4_total: "\<exists>x w'. or_uuidv4 env v w = (Inr x, w') \<and> same_store w w'"
  by (simp add: or_uuidv4_def same_store_def)

lemma or_new_Date_total: "\<exists>x w'. or_new_Date env v w = (Inr x, w') \<and> same_store w w'"
  by (simp add: or_new_Date_def new_Date_def io_bind_def io_return_def same_store_def)

lemma or_new_Date_toISOString_total:
  "\<exists>x w'. or_new_Date_toISOString env v w = (Inr x, w') \<and> same_store w w'"
  by (simp add: or_new_Date_toISOString_def new_Date_def io_bind_def io_return_def same_store_def)

lemma Message_new_total:
  "\<exists>m w'. Message_new env data w = (Inr m, w') \<and> same_store w w'
     \<and> m_conversation_id m = data ''conversation_id''
     \<and> m_type m = js_or (data ''type'') (JStr ''text'')
     \<and> m_wa_id m = js_or (data ''wa_id'') (JStr [])
     \<and> m_text m = js_or (data ''text'') JNull
     \<and> m_media m = js_or (data ''media'') JNull
     \<and> m_status m = js_or (data ''status'') (JStr ''pending'')"
proof -
  obtain i w1 where 1: "or_uuidv4 env (data ''id'') w = (Inr i, w1)" "same_store w w1"
    using or_uuidv4_total by blast
  obtain s w2 where 2: "or_new_Date_toISOString env (data ''timestamp'') w1 = (Inr s, w2)" "same_store w1 w2"
    using or_new_Date_toISOString_total by blast
  obtain c w3 where 3: "or_new_Date env (data ''created_at'') w2 = (Inr c, w3)" "same_store w2 w3"
    using or_new_Date_total by blast
  obtain u w4 where 4: "or_new_Date env (data ''updated_at'') w3 = (Inr u, w4)" "same_store w3 w4"
    using or_new_Date_total by blast
  have "same_store w w4"
    using 1(2) 2(2) 3(2) 4(2) by (simp add: same_store_def)
  then show ?thesis
    by (simp add: Message_new_def io_bind_def 1(1) 2(1) 3(1) 4(1) io_return_def)
qed

subsection \<open>Storage operations\<close>

lemma Message_create_cases:
  "(\<exists>w'. Message_create env m w = (Inr m, w') \<and> messages w' = messages w @ [m]
          \<and> trace w' = trace w @ [InsertMessage m] \<and> conversations w' = conversations w
          \<and> n_http w' = n_http w)
   \<or> (\<exists>e w'. Message_create env m w = (Inl e, w') \<and> same_store w (w'\<lparr>n_db := n_db w\<rparr>))"
  by (cases "db_outcome env (n_db w)")
     (simp_all add: Message_create_def getConnection_def execute_def io_bind_def same_store_def)

lemma Message_create_ok:
  "db_outcome env (n_db w) = DbOk \<Longrightarrow>
   Message_create env m w =
     (Inr m, w\<lparr>n_db := Suc (n_db w), messages := messages w @ [m],
               trace := trace w @ [InsertMessage m]\<rparr>)"
  by (simp add: Message_create_def getConnection_def execute_def io_bind_def)

lemma updateConfig_ok:
  assumes "db_outcome env (n_db w) = DbOk"
  shows "Conversation_updateConfig env configData (this, w) =
     (Inr (),
      (this\<lparr>conv_config := conv_config this ++ configData,
            conv_updated_at := JDate (clock env (n_now w))\<rparr>,
       w\<lparr>conversations :=
            map (set_row_config (conv_id this) (conv_config this ++ configData)
                   (JDate (clock env (n_now w)))) (conversations w),
          trace := trace w @ [UpdateConversationConfig (conv_id this)
                     (conv_config this ++ configData) (JDate (clock env (n_now w)))],
          n_db := Suc (n_db w),
          n_now := Suc (n_now w)\<rparr>))"
  using assms
  by (simp add: Conversation_updateConfig_def getConnection_ok new_Date_def execute_ok
      merge_config_def Let_def)

subsection \<open>Sorting the thread\<close>

lemma insert_sorted_insort_key:
  assumes "\<forall>y \<in> set ys. (cmp x y \<le> 0) = (f x \<le> f y)"
  shows "insert_sorted cmp x ys = insort_key f x ys"
  using assms by (induction ys) simp_all

lemma stable_sort_sort_key:
  assumes "\<forall>x \<in> set xs. \<forall>y \<in> set xs. (cmp x y \<le> 0) = (f x \<le> f y)"
  shows "stable_sort cmp xs = sort_key f xs"
  using assms
proof (induction xs)
  case Nil
  show ?case by (simp add: stable_sort_def)
next
  case (Cons x xs)
  have rest: "stable_sort cmp xs = sort_key f xs"
    using Cons by simp
  have "insert_sorted cmp x (sort_key f xs) = insort_key f x (sort_key f xs)"
    using Cons.prems by (intro insert_sorted_insort_key) simp
  then show ?case
    using rest by (simp add: stable_sort_def sort_key_def)
qed

lemma compare_created_at_in_range:
  assumes "\<bar>tm_created_at a\<bar> \<le> 8640000000000000" and "\<bar>tm_created_at b\<bar> \<le> 8640000000000000"
  shows "compare_created_at a b = Some (tm_created_at b - tm_created_at a)"
  using assms by (simp add: compare_created_at_def Date_time_value_def Date_minus_def)

lemma consistent_in_range:
  assumes "\<forall>m \<in> set xs. \<bar>tm_created_at m\<bar> \<le> 8640000000000000"
  shows "consistent_comparator compare_created_at xs"
  using assms
  by (simp add: consistent_comparator_def SortCompare_def compare_created_at_in_range)

lemma Array_sort_in_range:
  assumes "\<forall>m \<in> set xs. \<bar>tm_created_at m\<bar> \<le> 8640000000000000"
  shows "Array_sort env compare_created_at xs = sort_key (\<lambda>m. - tm_created_at m) xs"
proof -
  have "stable_sort (SortCompare compare_created_at) xs = sort_key (\<lambda>m. - tm_created_at m) xs"
    using assms
    by (intro stable_sort_sort_key) (simp add: SortCompare_def compare_created_at_in_range)
  then show ?thesis
    using assms by (simp add: Array_sort_def consistent_in_range)
qed

lemma Array_sort_props:
  assumes "\<forall>m \<in> set xs. \<bar>tm_created_at m\<bar> \<le> 8640000000000000"
  shows "set (Array_sort env compare_created_at xs) = set xs"
    and "length (Array_sort env compare_created_at xs) = length xs"
    and "sorted_wrt (\<lambda>a b. tm_created_at b \<le> tm_created_at a) (Array_sort env compare_created_at xs)"
proof -
  note eq = Array_sort_in_range [OF assms, of env]
  show "set (Array_sort env compare_created_at xs) = set xs" by (simp add: eq)
  show "length (Array_sort env compare_created_at xs) = length xs" by (simp add: eq)
  have "sorted (map (\<lambda>m. - tm_created_at m) (Array_sort env compare_created_at xs))"
    by (simp add: eq)
  then show "sorted_wrt (\<lambda>a b. tm_created_at b \<le> tm_created_at a) (Array_sort env compare_created_at xs)"
    by (simp add: sorted_wrt_map)
qed

subsection \<open>The loops of processWebhook\<close>

named_theorems model_defs

lemmas [model_defs] =
  optional_member_def js_or_val_def template_def message_timestamp_def obj_def
  Conversation_new_def conversation_row_data_def Conversation_create_def
  Conversation_findById_def Conversation_findByWaId_def
  Message_new_def message_row_data_def Message_create_def Message_findById_def
  Message_createMediaMessage_def Message_createBotMessage_def
  createConversation_def findConversationById_def findConversationByWaId_def
  createMessage_def createMediaMessage_def createBotMessage_def findMessageById_def
  processTextMessage_def getMediaInfo_def processMediaMessage_def
  processLocationMessage_def processContactMessage_def no_messages_def
  handleMessageEvent_def processWebhook_def post_messages_def response_message_id_def
  sendTextMessage_def sendMediaMessage_def

lemma for_changes_append:
  "for_changes env (cs1 @ cs2) = io_bind (for_changes env cs1) (\<lambda>u. for_changes env cs2)"
proof (induction cs1)
  case Nil
  show ?case by simp
next
  case (Cons c cs1)
  show ?case
  proof (cases "member (Some c) ''field''")
    case (Inl e)
    then show ?thesis by simp
  next
    case (Inr field)
    show ?thesis
    proof (cases "field = Some (JStr ''messages'')")
      case True
      show ?thesis
      proof (cases "member (Some c) ''value''")
        case (Inl e)
        then show ?thesis using Inr True by simp
      next
        case v: (Inr v)
        show ?thesis using Inr True v Cons.IH by (simp add: io_bind_assoc)
      qed
    next
      case False
      then show ?thesis using Inr Cons.IH by simp
    qed
  qed
qed

lemma for_entries_append:
  "for_entries env (es1 @ es2) = io_bind (for_entries env es1) (\<lambda>u. for_entries env es2)"
proof (induction es1)
  case Nil
  show ?case by simp
next
  case (Cons entry es1)
  show ?case
  proof (cases "member (Some entry) ''changes''")
    case (Inl e)
    then show ?thesis by simp
  next
    case (Inr changes)
    show ?thesis
    proof (cases "iterate changes")
      case (Inl e)
      then show ?thesis using Inr by simp
    next
      case cs: (Inr cs)
      show ?thesis using Inr cs Cons.IH by (simp add: io_bind_assoc)
    qed
  qed
qed

lemma optional_member_Some_truthy:
  "optional_member v k = Some x \<Longrightarrow> truthy v"
  by (cases v; cases "the v") (auto simp: optional_member_def)

lemma member_optional: "member v k = Inr x \<Longrightarrow> optional_member v k = x"
  by (simp add: optional_member_def)

subsection \<open>Rows added while handling an event\<close>


















lemma js_first_truthy: "truthy v \<Longrightarrow> \<exists>x. js_first v = Inr x"
  by (cases v rule: js_first.cases) auto



subsection \<open>The polling loop\<close>

lemma string_of_nat_120000: "string_of_nat 120000 = ''120000''"
  by (simp add: string_of_nat.simps)

lemma getRunStatus_ok:
  "threads_runs_retrieve env (n_http w) = Inr r \<Longrightarrow>
   getRunStatus env threadId runId w =
     (Inr r, w\<lparr>trace := trace w @ [ThreadsRunsRetrieve threadId runId], n_http := Suc (n_http w)\<rparr>)"
  by (simp add: getRunStatus_def)

lemma waitForRun_loop_completes:
  assumes "\<forall>k<m. in_progress (rs k)" and "\<not> in_progress (rs m)"
    and "\<forall>k<m. threads_runs_retrieve env (n_http w + k) = Inr (rs (Suc k))"
    and "\<forall>k<m. clock env (n_now w + k) - startTime \<le> int timeout"
  shows "waitForRun_loop env threadId runId interval timeout startTime (rs 0) w =
     Some (Inr (rs m),
           w\<lparr>trace := trace w @ replicate m (ThreadsRunsRetrieve threadId runId),
             n_http := n_http w + m, n_now := n_now w + m\<rparr>)"
  using assms
proof (induction m arbitrary: rs w)
  case 0
  then show ?case
    by (subst waitForRun_loop.simps) simp
next
  case (Suc m)
  let ?w1 = "w\<lparr>n_now := Suc (n_now w)\<rparr>"
  let ?w2 = "?w1\<lparr>trace := trace w @ [ThreadsRunsRetrieve threadId runId], n_http := Suc (n_http w)\<rparr>"
  have busy: "in_progress (rs 0)" using Suc.prems(1) by simp
  have time: "\<not> clock env (n_now w) - startTime > int timeout"
    using Suc.prems(4) [rule_format, of 0] by simp
  have poll: "threads_runs_retrieve env (n_http w) = Inr (rs (Suc 0))"
    using Suc.prems(3) [rule_format, of 0] by simp
  have step: "waitForRun_loop env threadId runId interval timeout startTime (rs 0) w
      = waitForRun_loop env threadId runId interval timeout startTime (rs (Suc 0)) ?w2"
    using busy time poll
    by (subst waitForRun_loop.simps) (simp add: new_Date_def getRunStatus_def)
  have rest: "waitForRun_loop env threadId runId interval timeout startTime ((rs \<circ> Suc) 0) ?w2 =
     Some (Inr ((rs \<circ> Suc) m),
           ?w2\<lparr>trace := trace ?w2 @ replicate m (ThreadsRunsRetrieve threadId runId),
             n_http := n_http ?w2 + m, n_now := n_now ?w2 + m\<rparr>)"
  proof (rule Suc.IH)
    show "\<forall>k<m. in_progress ((rs \<circ> Suc) k)" using Suc.prems(1) by simp
    show "\<not> in_progress ((rs \<circ> Suc) m)" using Suc.prems(2) by simp
    show "\<forall>k<m. threads_runs_retrieve env (n_http ?w2 + k) = Inr ((rs \<circ> Suc) (Suc k))"
      using Suc.prems(3) by (auto dest: spec [where x = "Suc k" for k])
    show "\<forall>k<m. clock env (n_now ?w2 + k) - startTime \<le> int timeout"
      using Suc.prems(4) by (auto dest: spec [where x = "Suc k" for k])
  qed
  show ?case
    using rest by (simp add: step replicate_app_Cons_same)
qed

lemma waitForRun_loop_timeout:
  assumes "\<forall>k\<le>m. in_progress (rs k)"
    and "\<forall>k<m. threads_runs_retrieve env (n_http w + k) = Inr (rs (Suc k))"
    and "\<forall>k<m. clock env (n_now w + k) - startTime \<le> int timeout"
    and "clock env (n_now w + m) - startTime > int timeout"
  shows "waitForRun_loop env threadId runId interval timeout startTime (rs 0) w =
     Some (Inl (Error (''Run '' @ runId @ '' timeout after '' @ string_of_nat timeout @ ''ms'')),
           w\<lparr>trace := trace w @ replicate m (ThreadsRunsRetrieve threadId runId),
             n_http := n_http w + m, n_now := Suc (n_now w + m)\<rparr>)"
  using assms
proof (induction m arbitrary: rs w)
  case 0
  then show ?case
    by (subst waitForRun_loop.simps) (simp add: new_Date_def)
next
  case (Suc m)
  let ?w1 = "w\<lparr>n_now := Suc (n_now w)\<rparr>"
  let ?w2 = "?w1\<lparr>trace := trace w @ [ThreadsRunsRetrieve threadId runId], n_http := Suc (n_http w)\<rparr>"
  have busy: "in_progress (rs 0)" using Suc.prems(1) by simp
  have time: "\<not> clock env (n_now w) - startTime > int timeout"
    using Suc.prems(3) [rule_format, of 0] by simp
  have poll: "threads_runs_retrieve env (n_http w) = Inr (rs (Suc 0))"
    using Suc.prems(2) [rule_format, of 0] by simp
  have step: "waitForRun_loop env threadId runId interval timeout startTime (rs 0) w
      = waitForRun_loop env threadId runId interval timeout startTime (rs (Suc 0)) ?w2"
    using busy time poll
    by (subst waitForRun_loop.simps) (simp add: new_Date_def getRunStatus_def)
  have rest: "waitForRun_loop env threadId runId interval timeout startTime ((rs \<circ> Suc) 0) ?w2 =
     Some (Inl (Error (''Run '' @ runId @ '' timeout after '' @ string_of_nat timeout @ ''ms'')),
           ?w2\<lparr>trace := trace ?w2 @ replicate m (ThreadsRunsRetrieve threadId runId),
             n_http := n_http ?w2 + m, n_now := Suc (n_now ?w2 + m)\<rparr>)"
  proof (rule Suc.IH)
    show "\<forall>k\<le>m. in_progress ((rs \<circ> Suc) k)" using Suc.prems(1) by simp
    show "\<forall>k<m. threads_runs_retrieve env (n_http ?w2 + k) = Inr ((rs \<circ> Suc) (Suc k))"
      using Suc.prems(2) by (auto dest: spec [where x = "Suc k" for k])
    show "\<forall>k<m. clock env (n_now ?w2 + k) - startTime \<le> int timeout"
      using Suc.prems(3) by (auto dest: spec [where x = "Suc k" for k])
    show "clock env (n_now ?w2 + m) - startTime > int timeout"
      using Suc.prems(4) by simp
  qed
  show ?case
    using rest by (simp add: step replicate_app_Cons_same)
qed

lemma waitForRun_completes:
  assumes "\<forall>k\<le>n. threads_runs_retrieve env (n_http w + k) = Inr (rs k)"
    and "\<forall>k<n. in_progress (rs k)" and "\<not> in_progress (rs n)"
    and "\<forall>k<n. clock env (n_now w + 1 + k) - clock env (n_now w) \<le> int timeout"
  shows "waitForRun env threadId runId interval timeout w =
     Some (Inr (rs n),
           w\<lparr>trace := trace w @ replicate (Suc n) (ThreadsRunsRetrieve threadId runId),
             n_http := n_http w + Suc n, n_now := n_now w + Suc n\<rparr>)"
proof -
  let ?w2 = "w\<lparr>n_now := Suc (n_now w), trace := trace w @ [ThreadsRunsRetrieve threadId runId],
               n_http := Suc (n_http w)\<rparr>"
  have first: "threads_runs_retrieve env (n_http w) = Inr (rs 0)"
    using assms(1) [rule_format, of 0] by simp
  have start: "waitForRun env threadId runId interval timeout w
      = waitForRun_loop env threadId runId interval timeout (clock env (n_now w)) (rs 0) ?w2"
    using first by (simp add: waitForRun_def new_Date_def getRunStatus_def)
  have loop: "waitForRun_loop env threadId runId interval timeout (clock env (n_now w)) (rs 0) ?w2 =
     Some (Inr (rs n),
           ?w2\<lparr>trace := trace ?w2 @ replicate n (ThreadsRunsRetrieve threadId runId),
             n_http := n_http ?w2 + n, n_now := n_now ?w2 + n\<rparr>)"
  proof (rule waitForRun_loop_completes)
    show "\<forall>k<n. in_progress (rs k)" by (rule assms(2))
    show "\<not> in_progress (rs n)" by (rule assms(3))
    show "\<forall>k<n. threads_runs_retrieve env (n_http ?w2 + k) = Inr (rs (Suc k))"
    proof (intro allI impI)
      fix k assume "k < n"
      then have "Suc k \<le> n" by simp
      from assms(1) [rule_format, OF this]
      show "threads_runs_retrieve env (n_http ?w2 + k) = Inr (rs (Suc k))" by simp
    qed
    show "\<forall>k<n. clock env (n_now ?w2 + k) - clock env (n_now w) \<le> int timeout"
      using assms(4) by simp
  qed
  show ?thesis
    by (simp add: start loop replicate_app_Cons_same)
qed

lemma waitForRun_timeout:
  assumes "\<forall>k\<le>m. threads_runs_retrieve env (n_http w + k) = Inr (rs k)"
    and "\<forall>k\<le>m. in_progress (rs k)"
    and "\<forall>k<m. clock env (n_now w + 1 + k) - clock env (n_now w) \<le> int timeout"
    and "clock env (n_now w + 1 + m) - clock env (n_now w) > int timeout"
  shows "waitForRun env threadId runId interval timeout w =
     Some (Inl (Error (''Run '' @ runId @ '' timeout after '' @ string_of_nat timeout @ ''ms'')),
           w\<lparr>trace := trace w @ replicate (Suc m) (ThreadsRunsRetrieve threadId runId),
             n_http := n_http w + Suc m, n_now := n_now w + Suc (Suc m)\<rparr>)"
proof -
  let ?w2 = "w\<lparr>n_now := Suc (n_now w), trace := trace w @ [ThreadsRunsRetrieve threadId runId],
               n_http := Suc (n_http w)\<rparr>"
  have first: "threads_runs_retrieve env (n_http w) = Inr (rs 0)"
    using assms(1) [rule_format, of 0] by simp
  have start: "waitForRun env threadId runId interval timeout w
      = waitForRun_loop env threadId runId interval timeout (clock env (n_now w)) (rs 0) ?w2"
    using first by (simp add: waitForRun_def new_Date_def getRunStatus_def)
  have loop: "waitForRun_loop env threadId runId interval timeout (clock env (n_now w)) (rs 0) ?w2 =
     Some (Inl (Error (''Run '' @ runId @ '' timeout after '' @ string_of_nat timeout @ ''ms'')),
           ?w2\<lparr>trace := trace ?w2 @ replicate m (ThreadsRunsRetrieve threadId runId),
             n_http := n_http ?w2 + m, n_now := Suc (n_now ?w2 + m)\<rparr>)"
  proof (rule waitForRun_loop_timeout)
    show "\<forall>k\<le>m. in_progress (rs k)" by (rule assms(2))
    show "\<forall>k<m. threads_runs_retrieve env (n_http ?w2 + k) = Inr (rs (Suc k))"
    proof (intro allI impI)
      fix k assume "k < m"
      then have "Suc k \<le> m" by simp
      from assms(1) [rule_format, OF this]
      show "threads_runs_retrieve env (n_http ?w2 + k) = Inr (rs (Suc k))" by simp
    qed
    show "\<forall>k<m. clock env (n_now ?w2 + k) - clock env (n_now w) \<le> int timeout"
      using assms(3) by simp
    show "clock env (n_now ?w2 + m) - clock env (n_now w) > int timeout"
      using assms(4) by simp
  qed
  show ?thesis
    by (simp add: start loop replicate_app_Cons_same)
qed

lemma updateConfig_Inr:
  assumes "Conversation_updateConfig env p (c, w) = (Inr u, (c', w'))"
  shows "conv_config c' = conv_config c ++ p \<and> conv_id c' = conv_id c \<and> conv_wa_id c' = conv_wa_id c
     \<and> conversations w' = map (set_row_config (conv_id c) (conv_config c') (conv_updated_at c')) (conversations w)
     \<and> messages w' = messages w"
  using assms
  by (cases "db_outcome env (n_db w)")
     (auto simp: Conversation_updateConfig_def getConnection_def new_Date_def execute_def
        merge_config_def Let_def)

lemma io_bind_InrD:
  "io_bind m f s = (Inr y, s'') \<Longrightarrow> \<exists>x s'. m s = (Inr x, s') \<and> f x s' = (Inr y, s'')"
  by (auto simp: io_bind_def split: prod.splits sum.splits)

lemma in_world_apply: "in_world m (c, w) = (fst (m w), (c, snd (m w)))"
  by (simp add: in_world_def split: prod.splits)

lemma same_conversation_trans:
  "same_conversation s s1 \<Longrightarrow> same_conversation s1 s2 \<Longrightarrow> same_conversation s s2"
  by (simp add: same_conversation_def)

lemma ensure_thread_same:
  assumes "(if \<not> truthy (config ''thread_id'') then
                io_bind (in_world (createThread env)) (\<lambda>thread_id.
                io_bind (set_config ''thread_id'' (JStr thread_id)) (\<lambda>u.
                io_bind (Conversation_updateConfig env (Map.empty(''thread_id'' \<mapsto> JStr thread_id))) (\<lambda>u.
                io_return (JStr thread_id))))
              else io_return (js_or (config ''thread_id'') JNull)) s = (Inr t, s1)"
  shows "same_conversation s s1"
proof (cases "truthy (config ''thread_id'')")
  case True
  then show ?thesis
    using assms by (simp add: io_return_def same_conversation_def)
next
  case False
  obtain c w where s: "s = (c, w)" by (cases s)
  obtain c1 w1 where s1: "s1 = (c1, w1)" by (cases s1)
  show ?thesis
    using assms False
    by (auto simp: s s1 io_bind_def io_return_def in_world_apply set_config_def createThread_def
        same_conversation_def split: sum.splits prod.splits dest!: updateConfig_Inr)
qed

lemma in_world_same:
  assumes "in_world m s = (r, s1)" and "\<And>w. messages (snd (m w)) = messages w"
  shows "same_conversation s s1"
  using assms by (cases s) (auto simp: in_world_apply same_conversation_def)

lemma start_run_Inr:
  assumes "start_run env message (conv_config c) (c, w) = (Inr (threadId, r), (c', w'))"
  shows "conv_config c' ''run_id'' = Some (JStr (run_id r))
     \<and> conv_id c' = conv_id c \<and> conv_wa_id c' = conv_wa_id c
     \<and> (\<forall>row \<in> set (conversations w'). conv_id row = conv_id c \<longrightarrow> conv_config row = conv_config c')
     \<and> messages w' = messages w"
proof -
  from assms obtain t s1 where
    a: "(if \<not> truthy (conv_config c ''thread_id'') then
                io_bind (in_world (createThread env)) (\<lambda>thread_id.
                io_bind (set_config ''thread_id'' (JStr thread_id)) (\<lambda>u.
                io_bind (Conversation_updateConfig env (Map.empty(''thread_id'' \<mapsto> JStr thread_id))) (\<lambda>u.
                io_return (JStr thread_id))))
              else io_return (js_or (conv_config c ''thread_id'') JNull)) (c, w) = (Inr t, s1)"
    and rest1: "io_bind (in_world (OpenAIService_createMessage env t message)) (\<lambda>u.
       io_bind (in_world (runAssistant env t
                  (js_or_val (conv_config c ''assistant_openai_id'') (this_assistantId env)))) (\<lambda>r.
       io_bind (Conversation_updateConfig env (Map.empty(''run_id'' \<mapsto> JStr (run_id r)))) (\<lambda>u.
       io_return (t, r)))) s1 = (Inr (threadId, r), (c', w'))"
    unfolding start_run_def by (blast dest: io_bind_InrD)
  from rest1 obtain u s2 where
    b: "in_world (OpenAIService_createMessage env t message) s1 = (Inr u, s2)"
    and rest2: "io_bind (in_world (runAssistant env t
                  (js_or_val (conv_config c ''assistant_openai_id'') (this_assistantId env)))) (\<lambda>r.
       io_bind (Conversation_updateConfig env (Map.empty(''run_id'' \<mapsto> JStr (run_id r)))) (\<lambda>u.
       io_return (t, r))) s2 = (Inr (threadId, r), (c', w'))"
    by (blast dest: io_bind_InrD)
  from rest2 obtain r' s3 where
    c: "in_world (runAssistant env t
                  (js_or_val (conv_config c ''assistant_openai_id'') (this_assistantId env))) s2 = (Inr r', s3)"
    and rest3: "io_bind (Conversation_updateConfig env (Map.empty(''run_id'' \<mapsto> JStr (run_id r')))) (\<lambda>u.
       io_return (t, r')) s3 = (Inr (threadId, r), (c', w'))"
    by (blast dest: io_bind_InrD)
  from rest3 obtain u' s4 where
    d: "Conversation_updateConfig env (Map.empty(''run_id'' \<mapsto> JStr (run_id r'))) s3 = (Inr u', s4)"
    and fin: "io_return (t, r') s4 = (Inr (threadId, r), (c', w'))"
    by (blast dest: io_bind_InrD)
  have eq: "r' = r" "s4 = (c', w')"
    using fin by (simp_all add: io_return_def)
  have 1: "same_conversation (c, w) s1" using a by (rule ensure_thread_same)
  have 2: "same_conversation s1 s2"
    using b by (rule in_world_same) (simp add: OpenAIService_createMessage_def)
  have 3: "same_conversation s2 s3"
    using c by (rule in_world_same) (simp add: runAssistant_def)
  have 123: "same_conversation (c, w) s3"
    using 1 2 3 by (blast intro: same_conversation_trans)
  obtain c3 w3 where s3: "s3 = (c3, w3)" by (cases s3)
  have upd: "conv_config c' = conv_config c3 ++ Map.empty(''run_id'' \<mapsto> JStr (run_id r))
     \<and> conv_id c' = conv_id c3 \<and> conv_wa_id c' = conv_wa_id c3
     \<and> conversations w' = map (set_row_config (conv_id c3) (conv_config c') (conv_updated_at c')) (conversations w3)
     \<and> messages w' = messages w3"
    using d eq s3 updateConfig_Inr [of env "Map.empty(''run_id'' \<mapsto> JStr (run_id r))" c3 w3 u' c' w']
    by simp
  show ?thesis
    using upd 123 by (auto simp: s3 same_conversation_def set_row_config_def split: if_splits)
qed

subsection \<open>The steps of the orchestration\<close>

lemma sendTextMessage_ok:
  assumes "axios_post env (n_http w) = Inr data"
    and "response_message_id data = Inr wa_id"
    and "db_outcome env (n_db w) = DbOk"
  shows "\<exists>row w'.
     sendTextMessage env to txt phoneNumberId conversationId w = (Inr row, w')
     \<and> trace w' = trace w @ [AxiosPostMessages phoneNumberId
           (obj [(''messaging_product'', Some (JStr ''whatsapp'')),
                 (''recipient_type'', Some (JStr ''individual'')),
                 (''to'', to),
                 (''type'', Some (JStr ''text'')),
                 (''text'', Some (obj [(''body'', txt)]))]), InsertMessage row]
     \<and> messages w' = messages w @ [row] \<and> conversations w' = conversations w
     \<and> m_type row = JStr ''bot_answer'' \<and> m_status row = JStr ''sent''
     \<and> m_text row = js_or txt JNull \<and> m_conversation_id row = conversationId
     \<and> m_wa_id row = js_or wa_id (JStr [])"
proof -
  let ?payload = "obj [(''messaging_product'', Some (JStr ''whatsapp'')),
                 (''recipient_type'', Some (JStr ''individual'')),
                 (''to'', to),
                 (''type'', Some (JStr ''text'')),
                 (''text'', Some (obj [(''body'', txt)]))]"
  let ?w1 = "w\<lparr>trace := trace w @ [AxiosPostMessages phoneNumberId ?payload], n_http := Suc (n_http w)\<rparr>"
  let ?w2 = "?w1\<lparr>n_now := Suc (n_now w)\<rparr>"
  let ?data = "Map.empty(
       ''conversation_id'' := conversationId,
       ''type'' \<mapsto> JStr ''bot_answer'',
       ''wa_id'' := wa_id,
       ''timestamp'' \<mapsto> JStr (toISOString env (clock env (n_now w))),
       ''text'' := txt,
       ''status'' \<mapsto> JStr ''sent'')"
  let ?d = "?data(''type'' \<mapsto> JStr ''bot_answer'', ''status'' \<mapsto> JStr ''sent'')"
  obtain m w3 where new: "Message_new env ?d ?w2 = (Inr m, w3)" "same_store ?w2 w3"
      "m_conversation_id m = ?d ''conversation_id''"
      "m_type m = js_or (?d ''type'') (JStr ''text'')"
      "m_wa_id m = js_or (?d ''wa_id'') (JStr [])"
      "m_text m = js_or (?d ''text'') JNull"
      "m_status m = js_or (?d ''status'') (JStr ''pending'')"
    using Message_new_total [of env ?d ?w2] by blast
  have db: "db_outcome env (n_db w3) = DbOk"
    using new(2) assms(3) by (simp add: same_store_def)
  have send: "sendTextMessage env to txt phoneNumberId conversationId w = Message_create env m w3"
    using assms(1,2) new(1)
    by (simp add: sendTextMessage_def createBotMessage_def Message_createBotMessage_def
        post_messages_def io_bind_def io_lift_def new_Date_def)
  show ?thesis
    using new(2-7)
    by (simp add: send Message_create_ok [OF db] same_store_def)
qed

lemma js_or_val_idem [simp]: "js_or_val (js_or_val a b) b = js_or_val a b"
  by (simp add: js_or_val_def)

lemma start_run_new_thread:
  assumes "\<not> truthy (conv_config c ''thread_id'')"
    and "threads_create env (n_http w) = Inr thread_id"
    and "db_outcome env (n_db w) = DbOk"
    and "threads_messages_create env (Suc (n_http w)) = Inr ()"
    and "threads_runs_create env (Suc (Suc (n_http w))) = Inr r"
    and "db_outcome env (Suc (n_db w)) = DbOk"
  shows "start_run env message (conv_config c) (c, w) =
     (Inr (JStr thread_id, r),
      (c\<lparr>conv_config := (conv_config c)(''thread_id'' \<mapsto> JStr thread_id, ''run_id'' \<mapsto> JStr (run_id r)),
         conv_updated_at := JDate (clock env (Suc (n_now w)))\<rparr>,
       w\<lparr>conversations :=
            map (set_row_config (conv_id c)
                   ((conv_config c)(''thread_id'' \<mapsto> JStr thread_id, ''run_id'' \<mapsto> JStr (run_id r)))
                   (JDate (clock env (Suc (n_now w)))))
              (map (set_row_config (conv_id c) ((conv_config c)(''thread_id'' \<mapsto> JStr thread_id))
                      (JDate (clock env (n_now w)))) (conversations w)),
          trace := trace w @
            [ThreadsCreate,
             UpdateConversationConfig (conv_id c) ((conv_config c)(''thread_id'' \<mapsto> JStr thread_id))
               (JDate (clock env (n_now w))),
             ThreadsMessagesCreate (JStr thread_id) message,
             ThreadsRunsCreate (JStr thread_id)
               (js_or_val (conv_config c ''assistant_openai_id'') (this_assistantId env)),
             UpdateConversationConfig (conv_id c)
               ((conv_config c)(''thread_id'' \<mapsto> JStr thread_id, ''run_id'' \<mapsto> JStr (run_id r)))
               (JDate (clock env (Suc (n_now w))))],
          n_db := Suc (Suc (n_db w)),
          n_http := Suc (Suc (Suc (n_http w))),
          n_now := Suc (Suc (n_now w))\<rparr>))"
  using assms
  by (simp add: start_run_def io_bind_def io_return_def in_world_apply set_config_def
      createThread_def OpenAIService_createMessage_def runAssistant_def updateConfig_ok)

lemma getLastAssistantMessage_listed:
  assumes "threads_messages_list env (n_http w) = Inr ms"
  shows "getLastAssistantMessage env threadId w =
     (Inr (case Array_sort env compare_created_at (filter (\<lambda>msg. tm_role msg = ''assistant'') ms) of
             [] \<Rightarrow> None
           | newest # older \<Rightarrow> Some newest),
      w\<lparr>trace := trace w @ [ThreadsMessagesList threadId], n_http := Suc (n_http w)\<rparr>)"
  using assms
  by (simp add: getLastAssistantMessage_def getMessages_def io_bind_def io_return_def
      split: list.splits)

subsection \<open>Rows added by the loops of processWebhook\<close>








section \<open>The webhook verification handshake\<close>

text \<open>
  C6 (as amended). \<open>verifyWebhook\<close> answers 200 exactly when the mode is
  \<open>subscribe\<close> and the token is non-empty and equal to the configured secret, and
  then the body is the challenge; it answers 400 exactly when the mode or the token is
  absent or empty (falsy); it answers 403 exactly when both are given and the mode or
  the token does not match.
\<close>

theorem verifyWebhook_handshake:
  "(res_status (verifyWebhook env query) = 200 \<longleftrightarrow>
      query ''hub.mode'' = Some (JStr ''subscribe'')
      \<and> truthy (query ''hub.verify_token'')
      \<and> query ''hub.verify_token'' = map_option JStr (WHATSAPP_VERIFY_TOKEN env))
   \<and> (res_status (verifyWebhook env query) = 200 \<longrightarrow>
          res_body (verifyWebhook env query) = query ''hub.challenge'')
   \<and> (res_status (verifyWebhook env query) = 400 \<longleftrightarrow>
          \<not> truthy (query ''hub.mode'') \<or> \<not> truthy (query ''hub.verify_token''))
   \<and> (res_status (verifyWebhook env query) = 403 \<longleftrightarrow>
          truthy (query ''hub.mode'') \<and> truthy (query ''hub.verify_token'')
          \<and> \<not> (query ''hub.mode'' = Some (JStr ''subscribe'')
                \<and> query ''hub.verify_token'' = map_option JStr (WHATSAPP_VERIFY_TOKEN env)))"
  by (auto simp: verifyWebhook_def Let_def)

text \<open>The spec's three examples: the configured token, a wrong token, no mode.\<close>

theorem verifyWebhook_handshake_witness:
  "res_status (verifyWebhook env_ok
      (Map.empty(''hub.mode'' \<mapsto> JStr ''subscribe'', ''hub.verify_token'' \<mapsto> JStr ''s3cret'',
                 ''hub.challenge'' \<mapsto> JStr ''XYZ''))) = 200
   \<and> res_body (verifyWebhook env_ok
      (Map.empty(''hub.mode'' \<mapsto> JStr ''subscribe'', ''hub.verify_token'' \<mapsto> JStr ''s3cret'',
                 ''hub.challenge'' \<mapsto> JStr ''XYZ''))) = Some (JStr ''XYZ'')
   \<and> res_status (verifyWebhook env_ok
      (Map.empty(''hub.mode'' \<mapsto> JStr ''subscribe'', ''hub.verify_token'' \<mapsto> JStr ''wrong'',
                 ''hub.challenge'' \<mapsto> JStr ''XYZ''))) = 403
   \<and> res_status (verifyWebhook env_ok
      (Map.empty(''hub.verify_token'' \<mapsto> JStr ''s3cret'', ''hub.challenge'' \<mapsto> JStr ''XYZ''))) = 400"
  using
    verifyWebhook_handshake [of env_ok
      "Map.empty(''hub.mode'' \<mapsto> JStr ''subscribe'', ''hub.verify_token'' \<mapsto> JStr ''s3cret'',
                 ''hub.challenge'' \<mapsto> JStr ''XYZ'')"]
    verifyWebhook_handshake [of env_ok
      "Map.empty(''hub.mode'' \<mapsto> JStr ''subscribe'', ''hub.verify_token'' \<mapsto> JStr ''wrong'',
                 ''hub.challenge'' \<mapsto> JStr ''XYZ'')"]
    verifyWebhook_handshake [of env_ok
      "Map.empty(''hub.verify_token'' \<mapsto> JStr ''s3cret'', ''hub.challenge'' \<mapsto> JStr ''XYZ'')"]
  by (simp add: env_ok_def)

text \<open>
  The claim as stated fails where the configured secret is the empty string: the
  request's mode is \<open>subscribe\<close> and its (empty) token equals the secret, yet the
  guard \<open>mode && token\<close> answers 400.
\<close>

theorem verifyWebhook_empty_secret_counterexample:
  "(Map.empty(''hub.mode'' \<mapsto> JStr ''subscribe'', ''hub.verify_token'' \<mapsto> JStr [],
              ''hub.challenge'' \<mapsto> JStr ''XYZ'')) ''hub.mode'' = Some (JStr ''subscribe'')
   \<and> (Map.empty(''hub.mode'' \<mapsto> JStr ''subscribe'', ''hub.verify_token'' \<mapsto> JStr [],
              ''hub.challenge'' \<mapsto> JStr ''XYZ'')) ''hub.verify_token''
        = map_option JStr (WHATSAPP_VERIFY_TOKEN (env_ok\<lparr>WHATSAPP_VERIFY_TOKEN := Some []\<rparr>))
   \<and> verifyWebhook (env_ok\<lparr>WHATSAPP_VERIFY_TOKEN := Some []\<rparr>)
        (Map.empty(''hub.mode'' \<mapsto> JStr ''subscribe'', ''hub.verify_token'' \<mapsto> JStr [],
                   ''hub.challenge'' \<mapsto> JStr ''XYZ''))
      = \<lparr> res_status = 400, res_body = Some (JStr ''Bad Request'') \<rparr>"
  by (simp add: verifyWebhook_def env_ok_def)

section \<open>Merging the conversation config\<close>

text \<open>
  C3. \<open>updateConfig\<close> is a shallow merge: after an update with the partial config
  \<open>p\<close> the conversation's config holds \<open>p\<close>'s value at every key of \<open>p\<close> and
  the existing value at every other key, and the stored rows of that conversation
  hold the same config. Merging is associative: updating with \<open>p\<close> and then with
  \<open>q\<close> leaves the same config, in the object and in storage, as updating once
  with the merge of \<open>p\<close> and \<open>q\<close>. (Both storage operations succeed.)
\<close>

theorem updateConfig_shallow_merge:
  assumes "db_outcome env (n_db w) = DbOk" and "db_outcome env (Suc (n_db w)) = DbOk"
  shows "\<exists>c1 w1 c2 w2 c12 w12.
     Conversation_updateConfig env p (c, w) = (Inr (), (c1, w1))
     \<and> Conversation_updateConfig env q (c1, w1) = (Inr (), (c2, w2))
     \<and> Conversation_updateConfig env (merge_config p q) (c, w) = (Inr (), (c12, w12))
     \<and> conv_config c1 = (\<lambda>k. case p k of Some v \<Rightarrow> Some v | None \<Rightarrow> conv_config c k)
     \<and> map conv_config (conversations w1) =
         map (\<lambda>row. if conv_id row = conv_id c then conv_config c1 else conv_config row)
           (conversations w)
     \<and> conv_config c2 = conv_config c12
     \<and> map conv_config (conversations w2) = map conv_config (conversations w12)"
proof -
  have merged: "conv_config c ++ p = (\<lambda>k. case p k of Some v \<Rightarrow> Some v | None \<Rightarrow> conv_config c k)"
    by (rule ext) (simp add: map_add_def)
  show ?thesis
    using assms
    by (simp add: updateConfig_ok merge_config_def merged [symmetric] set_row_config_def)
qed

text \<open>The spec's example: \<open>{a:1}\<close> and then \<open>{b:2}\<close> gives \<open>{a:1,b:2}\<close>.\<close>

theorem updateConfig_shallow_merge_witness:
  "(\<exists>c1 w1 c2 w2 c12 w12.
     Conversation_updateConfig env_ok (Map.empty(''a'' \<mapsto> JNum 1)) (conv0, world1) = (Inr (), (c1, w1))
     \<and> Conversation_updateConfig env_ok (Map.empty(''b'' \<mapsto> JNum 2)) (c1, w1) = (Inr (), (c2, w2))
     \<and> Conversation_updateConfig env_ok
          (merge_config (Map.empty(''a'' \<mapsto> JNum 1)) (Map.empty(''b'' \<mapsto> JNum 2))) (conv0, world1)
        = (Inr (), (c12, w12))
     \<and> conv_config c1 = (\<lambda>k. case (Map.empty(''a'' \<mapsto> JNum 1)) k of
                                Some v \<Rightarrow> Some v | None \<Rightarrow> conv_config conv0 k)
     \<and> map conv_config (conversations w1) =
         map (\<lambda>row. if conv_id row = conv_id conv0 then conv_config c1 else conv_config row)
           (conversations world1)
     \<and> conv_config c2 = conv_config c12
     \<and> map conv_config (conversations w2) = map conv_config (conversations w12))
   \<and> merge_config (Map.empty(''a'' \<mapsto> JNum 1)) (Map.empty(''b'' \<mapsto> JNum 2))
       = Map.empty(''a'' \<mapsto> JNum 1, ''b'' \<mapsto> JNum 2)
   \<and> map conv_config (conversations (snd (snd
        (Conversation_updateConfig env_ok (Map.empty(''b'' \<mapsto> JNum 2))
          (snd (Conversation_updateConfig env_ok (Map.empty(''a'' \<mapsto> JNum 1)) (conv0, world1)))))))
       = [Map.empty(''a'' \<mapsto> JNum 1, ''b'' \<mapsto> JNum 2)]"
proof (intro conjI)
  show "\<exists>c1 w1 c2 w2 c12 w12.
     Conversation_updateConfig env_ok (Map.empty(''a'' \<mapsto> JNum 1)) (conv0, world1) = (Inr (), (c1, w1))
     \<and> Conversation_updateConfig env_ok (Map.empty(''b'' \<mapsto> JNum 2)) (c1, w1) = (Inr (), (c2, w2))
     \<and> Conversation_updateConfig env_ok
          (merge_config (Map.empty(''a'' \<mapsto> JNum 1)) (Map.empty(''b'' \<mapsto> JNum 2))) (conv0, world1)
        = (Inr (), (c12, w12))
     \<and> conv_config c1 = (\<lambda>k. case (Map.empty(''a'' \<mapsto> JNum 1)) k of
                                Some v \<Rightarrow> Some v | None \<Rightarrow> conv_config conv0 k)
     \<and> map conv_config (conversations w1) =
         map (\<lambda>row. if conv_id row = conv_id conv0 then conv_config c1 else conv_config row)
           (conversations world1)
     \<and> conv_config c2 = conv_config c12
     \<and> map conv_config (conversations w2) = map conv_config (conversations w12)"
    by (rule updateConfig_shallow_merge) (simp_all add: env_ok_def)
  show "merge_config (Map.empty(''a'' \<mapsto> JNum 1)) (Map.empty(''b'' \<mapsto> JNum 2))
       = Map.empty(''a'' \<mapsto> JNum 1, ''b'' \<mapsto> JNum 2)"
    by (simp add: merge_config_def)
  show "map conv_config (conversations (snd (snd
        (Conversation_updateConfig env_ok (Map.empty(''b'' \<mapsto> JNum 2))
          (snd (Conversation_updateConfig env_ok (Map.empty(''a'' \<mapsto> JNum 1)) (conv0, world1)))))))
       = [Map.empty(''a'' \<mapsto> JNum 1, ''b'' \<mapsto> JNum 2)]"
    by (simp add: updateConfig_ok env_ok_def world1_def world0_def conv0_def set_row_config_def)
qed

section \<open>The newest assistant message\<close>

text \<open>
  C5 (as amended). Take a call of \<open>processConversation\<close> whose steps up to polling
  succeed and whose polling returns a run (the poll has completed), and let the
  listing of the thread succeed with creation times of the assistant-authored
  messages that lie in the range of \<open>Date\<close>. Then the orchestration makes that one
  listing request and returns without raising. What it returns is the head of the
  assistant-authored messages of the listing sorted by creation time, newest first:
  \<open>null\<close> exactly when no listed message is assistant-authored, and otherwise an
  assistant-authored message of the thread that none of the others is newer than.
\<close>

theorem processConversation_newest_assistant_message:
  assumes started: "start_run env message (conv_config conversation) (conversation, w)
                      = (Inr (threadId, r), (conversation', w1))"
    and polled: "waitForRun env threadId (run_id r) 1000 120000 w1 = Some (Inr completed, w2)"
    and listed: "threads_messages_list env (n_http w2) = Inr ms"
    and dates: "\<forall>m \<in> set ms. tm_role m = ''assistant'' \<longrightarrow> \<bar>tm_created_at m\<bar> \<le> 8640000000000000"
  shows "\<exists>answer ranked w3.
       processConversation env message (conversation, w) = Some (Inr answer, (conversation', w3))
     \<and> getLastAssistantMessage env threadId w2 = (Inr answer, w3)
     \<and> trace w3 = trace w2 @ [ThreadsMessagesList threadId]
     \<and> messages w3 = messages w2 \<and> conversations w3 = conversations w2
     \<and> ranked = Array_sort env compare_created_at (filter (\<lambda>msg. tm_role msg = ''assistant'') ms)
     \<and> set ranked = {m \<in> set ms. tm_role m = ''assistant''}
     \<and> length ranked = length (filter (\<lambda>msg. tm_role msg = ''assistant'') ms)
     \<and> sorted_wrt (\<lambda>a b. tm_created_at b \<le> tm_created_at a) ranked
     \<and> answer = (case ranked of [] \<Rightarrow> None | newest # older \<Rightarrow> Some newest)
     \<and> (answer = None \<longleftrightarrow> (\<forall>m \<in> set ms. tm_role m \<noteq> ''assistant''))
     \<and> (\<forall>newest. answer = Some newest \<longrightarrow>
           newest \<in> set ms \<and> tm_role newest = ''assistant''
           \<and> (\<forall>m \<in> set ms. tm_role m = ''assistant'' \<longrightarrow> tm_created_at m \<le> tm_created_at newest))"
proof -
  let ?authored = "filter (\<lambda>msg. tm_role msg = ''assistant'') ms"
  define ranked where "ranked = Array_sort env compare_created_at ?authored"
  define answer where "answer = (case ranked of [] \<Rightarrow> None | newest # older \<Rightarrow> Some newest)"
  define w3 where "w3 = w2\<lparr>trace := trace w2 @ [ThreadsMessagesList threadId], n_http := Suc (n_http w2)\<rparr>"
  have range: "\<forall>m \<in> set ?authored. \<bar>tm_created_at m\<bar> \<le> 8640000000000000"
    using dates by simp
  have members: "set ranked = {m \<in> set ms. tm_role m = ''assistant''}"
    unfolding ranked_def using Array_sort_props(1) [OF range, of env] by simp
  have len: "length ranked = length ?authored"
    unfolding ranked_def by (rule Array_sort_props(2) [OF range])
  have desc: "sorted_wrt (\<lambda>a b. tm_created_at b \<le> tm_created_at a) ranked"
    unfolding ranked_def by (rule Array_sort_props(3) [OF range])
  have list: "getLastAssistantMessage env threadId w2 = (Inr answer, w3)"
    unfolding answer_def ranked_def w3_def using listed by (rule getLastAssistantMessage_listed)
  have conv: "processConversation env message (conversation, w) = Some (Inr answer, (conversation', w3))"
    by (simp add: processConversation_def started polled in_world_apply list)
  have none: "answer = None \<longleftrightarrow> (\<forall>m \<in> set ms. tm_role m \<noteq> ''assistant'')"
  proof (cases ranked)
    case Nil
    then show ?thesis using members by (auto simp: answer_def)
  next
    case (Cons newest older)
    then have "newest \<in> {m \<in> set ms. tm_role m = ''assistant''}"
      using members by auto
    then show ?thesis using Cons by (auto simp: answer_def)
  qed
  have newest: "\<forall>newest. answer = Some newest \<longrightarrow>
           newest \<in> set ms \<and> tm_role newest = ''assistant''
           \<and> (\<forall>m \<in> set ms. tm_role m = ''assistant'' \<longrightarrow> tm_created_at m \<le> tm_created_at newest)"
  proof (intro allI impI)
    fix newest assume "answer = Some newest"
    then obtain older where split: "ranked = newest # older"
      by (cases ranked) (simp_all add: answer_def)
    then have here: "newest \<in> set ms \<and> tm_role newest = ''assistant''"
      using members by auto
    have "\<forall>m \<in> set ms. tm_role m = ''assistant'' \<longrightarrow> tm_created_at m \<le> tm_created_at newest"
    proof (intro ballI impI)
      fix m assume "m \<in> set ms" "tm_role m = ''assistant''"
      then have "m \<in> set (newest # older)" using members split by auto
      then show "tm_created_at m \<le> tm_created_at newest" using desc split by auto
    qed
    then show "newest \<in> set ms \<and> tm_role newest = ''assistant''
           \<and> (\<forall>m \<in> set ms. tm_role m = ''assistant'' \<longrightarrow> tm_created_at m \<le> tm_created_at newest)"
      using here by simp
  qed
  have w3: "trace w3 = trace w2 @ [ThreadsMessagesList threadId]" "messages w3 = messages w2"
    "conversations w3 = conversations w2"
    by (simp_all add: w3_def)
  have head: "answer = (case ranked of [] \<Rightarrow> None | newest # older \<Rightarrow> Some newest)"
    by (rule answer_def)
  have sort: "ranked = Array_sort env compare_created_at (filter (\<lambda>msg. tm_role msg = ''assistant'') ms)"
    by (rule ranked_def)
  show ?thesis
    apply (intro exI [of _ answer] exI [of _ ranked] exI [of _ w3] conjI)
              apply (rule conv)
             apply (rule list)
            apply (rule w3)+
         apply (rule sort)
        apply (rule members)
       apply (rule len)
      apply (rule desc)
     apply (rule head)
    apply (rule none)
    apply (rule newest)
    done
qed

text \<open>The run completes at the third poll; the thread holds two assistant messages
  between the user's, and the one of 1700000007 is returned. On a thread without
  messages the result is \<open>null\<close>.\<close>

theorem processConversation_newest_assistant_message_witness:
  "(\<exists>answer w3.
       processConversation env_reply (m_text msg0) (conv0, world1\<lparr>n_db := 2\<rparr>)
         = Some (Inr answer, (fst started_reply, w3))
     \<and> answer = Some \<lparr> tm_role = ''assistant'', tm_created_at = 1700000007,
                         tm_content = [\<lparr> part_type = ''text'', part_text_value = ''Here is the answer.'' \<rparr>] \<rparr>
     \<and> trace w3 = trace polled_reply @ [ThreadsMessagesList (JStr ''thread_1'')]
     \<and> (\<forall>newest. answer = Some newest \<longrightarrow>
           newest \<in> set thread0 \<and> tm_role newest = ''assistant''
           \<and> (\<forall>m \<in> set thread0. tm_role m = ''assistant'' \<longrightarrow> tm_created_at m \<le> tm_created_at newest)))
   \<and> fst (getLastAssistantMessage env_ok (JStr ''thread_1'') world0) = Inr None"
proof (rule conjI)
  let ?r = "\<lparr> run_id = ''run_1'', run_status = ''queued'' \<rparr>"
  have "\<exists>s. start_run env_reply (m_text msg0) (conv_config conv0) (conv0, world1\<lparr>n_db := 2\<rparr>)
          = (Inr (JStr ''thread_1'', ?r), s) \<and> n_http (snd s) = 3 \<and> n_now (snd s) = 2"
    by (rule exI, rule conjI, rule start_run_new_thread)
       (simp_all add: env_reply_def env_thread_def env_ok_def world1_def world0_def conv0_def)
  then have started: "start_run env_reply (m_text msg0) (conv_config conv0) (conv0, world1\<lparr>n_db := 2\<rparr>)
          = (Inr (JStr ''thread_1'', ?r), (fst started_reply, snd started_reply))"
    and at: "n_http (snd started_reply) = 3" "n_now (snd started_reply) = 2"
    unfolding started_reply_def by auto
  have "waitForRun env_reply (JStr ''thread_1'') ''run_1'' 1000 120000 (snd started_reply)
      = Some (Inr (polls_then_completed 2), polled_reply)"
    unfolding polled_reply_def
  proof (rule waitForRun_completes)
    show "\<forall>k\<le>2. threads_runs_retrieve env_reply (n_http (snd started_reply) + k)
            = Inr (polls_then_completed k)"
      by (simp add: at env_reply_def)
    show "\<forall>k<2. in_progress (polls_then_completed k)"
      by (simp add: polls_then_completed_def in_progress_def)
    show "\<not> in_progress (polls_then_completed 2)"
      by (simp add: polls_then_completed_def in_progress_def)
    show "\<forall>k<2. clock env_reply (n_now (snd started_reply) + 1 + k)
            - clock env_reply (n_now (snd started_reply)) \<le> int 120000"
      by (simp add: at env_reply_def env_thread_def env_ok_def)
  qed
  then have polled: "waitForRun env_reply (JStr ''thread_1'') (run_id ?r) 1000 120000 (snd started_reply)
      = Some (Inr (polls_then_completed 2), polled_reply)"
    by simp
  have listed: "threads_messages_list env_reply (n_http polled_reply) = Inr thread0"
    by (simp add: env_reply_def env_thread_def)
  have dates: "\<forall>m \<in> set thread0. tm_role m = ''assistant'' \<longrightarrow> \<bar>tm_created_at m\<bar> \<le> 8640000000000000"
    by (simp add: thread0_def)
  from processConversation_newest_assistant_message [OF started polled listed dates]
  obtain answer ranked w3 where
      conv: "processConversation env_reply (m_text msg0) (conv0, world1\<lparr>n_db := 2\<rparr>)
         = Some (Inr answer, (fst started_reply, w3))"
    and tr: "trace w3 = trace polled_reply @ [ThreadsMessagesList (JStr ''thread_1'')]"
    and sort: "ranked = Array_sort env_reply compare_created_at (filter (\<lambda>msg. tm_role msg = ''assistant'') thread0)"
    and head: "answer = (case ranked of [] \<Rightarrow> None | newest # older \<Rightarrow> Some newest)"
    and newest: "\<forall>newest. answer = Some newest \<longrightarrow>
           newest \<in> set thread0 \<and> tm_role newest = ''assistant''
           \<and> (\<forall>m \<in> set thread0. tm_role m = ''assistant'' \<longrightarrow> tm_created_at m \<le> tm_created_at newest)"
    by blast
  have "filter (\<lambda>msg. tm_role msg = ''assistant'') thread0 = [thread0 ! 0, thread0 ! 2]"
    by (simp add: thread0_def)
  moreover have "Array_sort env_reply compare_created_at [thread0 ! 0, thread0 ! 2]
      = sort_key (\<lambda>m. - tm_created_at m) [thread0 ! 0, thread0 ! 2]"
    by (rule Array_sort_in_range) (simp add: thread0_def)
  ultimately have "ranked = [thread0 ! 2, thread0 ! 0]"
    using sort by (simp add: thread0_def)
  then have "answer = Some \<lparr> tm_role = ''assistant'', tm_created_at = 1700000007,
                         tm_content = [\<lparr> part_type = ''text'', part_text_value = ''Here is the answer.'' \<rparr>] \<rparr>"
    using head by (simp add: thread0_def)
  then show "\<exists>answer w3.
       processConversation env_reply (m_text msg0) (conv0, world1\<lparr>n_db := 2\<rparr>)
         = Some (Inr answer, (fst started_reply, w3))
     \<and> answer = Some \<lparr> tm_role = ''assistant'', tm_created_at = 1700000007,
                         tm_content = [\<lparr> part_type = ''text'', part_text_value = ''Here is the answer.'' \<rparr>] \<rparr>
     \<and> trace w3 = trace polled_reply @ [ThreadsMessagesList (JStr ''thread_1'')]
     \<and> (\<forall>newest. answer = Some newest \<longrightarrow>
           newest \<in> set thread0 \<and> tm_role newest = ''assistant''
           \<and> (\<forall>m \<in> set thread0. tm_role m = ''assistant'' \<longrightarrow> tm_created_at m \<le> tm_created_at newest))"
    using conv tr newest by blast
next
  show "fst (getLastAssistantMessage env_ok (JStr ''thread_1'') world0) = Inr None"
    by (simp add: getLastAssistantMessage_def getMessages_def Array_sort_def
        consistent_comparator_def stable_sort_def env_ok_def world0_def io_bind_def io_return_def)
qed

text \<open>
  The claim as stated fails on creation times outside the range of \<open>Date\<close>: the
  comparator returns \<open>NaN\<close> on them, which the sort takes for equal. The thread
  lists an assistant message created at 1 and then one created at 9000000000000000;
  with an engine that sorts by insertion the orchestration returns the first, which
  is not the newest.
\<close>

theorem processConversation_invalid_date_counterexample:
  "map_option (map_sum id (map_option tm_created_at) \<circ> fst)
       (processConversation env_late (m_text msg0) (conv0, world1\<lparr>n_db := 2\<rparr>))
     = Some (Inr (Some 1))
   \<and> threads_messages_list env_late 4 = Inr thread_late
   \<and> map tm_role thread_late = [''assistant'', ''assistant'']
   \<and> map tm_created_at thread_late = [1, 9000000000000000]"
proof -
  have started: "start_run env_late (m_text msg0) (conv_config conv0) (conv0, world1\<lparr>n_db := 2\<rparr>)
      = (Inr (JStr ''thread_1'', \<lparr> run_id = ''run_1'', run_status = ''queued'' \<rparr>),
         (conv0\<lparr>conv_config := (conv_config conv0)(''thread_id'' \<mapsto> JStr ''thread_1'',
                                    ''run_id'' \<mapsto> JStr ''run_1''),
                conv_updated_at := JDate 1000\<rparr>,
          world1\<lparr>conversations :=
                   [conv0\<lparr>conv_config := (conv_config conv0)(''thread_id'' \<mapsto> JStr ''thread_1'',
                                    ''run_id'' \<mapsto> JStr ''run_1''),
                          conv_updated_at := JDate 1000\<rparr>],
                 trace :=
                   [ThreadsCreate,
                    UpdateConversationConfig (JStr ''conv-1'')
                      (Map.empty(''thread_id'' \<mapsto> JStr ''thread_1'')) (JDate 0),
                    ThreadsMessagesCreate (JStr ''thread_1'') (JStr ''hello''),
                    ThreadsRunsCreate (JStr ''thread_1'') (Some (JStr ''asst_1'')),
                    UpdateConversationConfig (JStr ''conv-1'')
                      (Map.empty(''thread_id'' \<mapsto> JStr ''thread_1'', ''run_id'' \<mapsto> JStr ''run_1''))
                      (JDate 1000)],
                 n_db := 4, n_http := 3, n_now := 2\<rparr>))"
    by (subst start_run_new_thread
          [where thread_id = "''thread_1''" and r = "\<lparr> run_id = ''run_1'', run_status = ''queued'' \<rparr>"])
       (simp_all add: env_late_def env_ok_def world1_def world0_def conv0_def msg0_def
          set_row_config_def this_assistantId_def js_or_val_def)
  have run: "map_option (map_sum id (map_option tm_created_at) \<circ> fst)
       (processConversation env_late (m_text msg0) (conv0, world1\<lparr>n_db := 2\<rparr>))
     = Some (Inr (Some 1))"
    unfolding processConversation_def prod.case started sum.case
    by (simp add: waitForRun_def waitForRun_loop.simps in_progress_def
        getRunStatus_def getLastAssistantMessage_def getMessages_def Array_sort_def
        consistent_comparator_def SortCompare_def compare_created_at_def Date_time_value_def
        Date_minus_def stable_sort_def thread_late_def
        in_world_apply io_defs env_late_def env_ok_def world1_def world0_def)
  show ?thesis
    using run by (simp add: env_late_def thread_late_def)
qed


section \<open>Sending media\<close>

text \<open>
  C8 (as amended). For every \<open>sendMediaMessage\<close> call whose media type is
  \<open>video\<close> and whose caption is absent (or otherwise falsy), when the platform
  accepts the message and the row is stored: the one request made carries the empty
  string as the caption of its \<open>video\<close> object, and the stored row's media record
  has the mime type \<open>video/jpeg\<close> (the type, then the non-document default subtype
  \<open>jpeg\<close>) and the empty caption.
\<close>

theorem sendMediaMessage_video_no_caption:
  assumes "member mediaData ''type'' = Inr (Some (JStr ''video''))"
    and "member mediaData ''caption'' = Inr caption" and "\<not> truthy caption"
    and "axios_post env (n_http w) = Inr data"
    and "response_message_id data = Inr wa_id"
    and "db_outcome env (n_db w) = DbOk"
  shows "\<exists>payload m w'.
     sendMediaMessage env to mediaData phoneNumberId conversationId w = (Inr m, w')
     \<and> trace w' = trace w @ [AxiosPostMessages phoneNumberId payload, InsertMessage m]
     \<and> messages w' = messages w @ [m]
     \<and> optional_member (optional_member (Some payload) ''video'') ''caption'' = Some (JStr [])
     \<and> optional_member (Some (m_media m)) ''mime_type'' = Some (JStr ''video/jpeg'')
     \<and> optional_member (Some (m_media m)) ''caption'' = Some (JStr [])"
proof -
  obtain url where url: "member mediaData ''url'' = Inr url"
    using member_defined [OF assms(1)] by blast
  let ?payload = "obj [(''messaging_product'', Some (JStr ''whatsapp'')),
                      (''recipient_type'', Some (JStr ''individual'')),
                      (''to'', to),
                      (''type'', Some (JStr ''video'')),
                      (''video'', Some (obj [(''link'', url), (''caption'', Some (JStr []))]))]"
  let ?media = "obj [(''url'', url), (''mime_type'', Some (JStr ''video/jpeg'')),
                     (''caption'', Some (JStr []))]"
  let ?w1 = "w\<lparr>trace := trace w @ [AxiosPostMessages phoneNumberId ?payload], n_http := Suc (n_http w)\<rparr>"
  let ?w2 = "?w1\<lparr>n_now := Suc (n_now w)\<rparr>"
  let ?data = "Map.empty(
          ''conversation_id'' := conversationId,
          ''type'' \<mapsto> JStr ''bot_answer'',
          ''wa_id'' := wa_id,
          ''timestamp'' \<mapsto> JStr (toISOString env (clock env (n_now w))),
          ''status'' \<mapsto> JStr ''sent'')"
  let ?d = "?data(''type'' \<mapsto> JStr ''media'', ''media'' := Some ?media)"
  obtain m w3 where new: "Message_new env ?d ?w2 = (Inr m, w3)" "same_store ?w2 w3"
      "m_media m = js_or (?d ''media'') JNull"
    using Message_new_total [of env ?d ?w2] by blast
  have db: "db_outcome env (n_db w3) = DbOk"
    using new(2) assms(6) by (simp add: same_store_def)
  have media: "m_media m = ?media"
    using new(3) by (simp add: obj_def)
  have send: "sendMediaMessage env to mediaData phoneNumberId conversationId w
      = Message_create env m w3"
    using assms(1-5) url new(1)
    by (simp add: sendMediaMessage_def createMediaMessage_def Message_createMediaMessage_def
        post_messages_def io_bind_def io_lift_def new_Date_def template_def js_or_falsy)
  have payload: "optional_member (optional_member (Some ?payload) ''video'') ''caption'' = Some (JStr [])"
    by (cases to; cases url) (simp_all add: obj_def optional_member_def)
  have stored: "optional_member (Some ?media) ''mime_type'' = Some (JStr ''video/jpeg'')
      \<and> optional_member (Some ?media) ''caption'' = Some (JStr [])"
    by (cases url) (simp_all add: obj_def optional_member_def)
  show ?thesis
    using new(2) payload stored
    by (simp add: send Message_create_ok [OF db] media same_store_def)
qed

theorem sendMediaMessage_video_no_caption_witness:
  "\<exists>payload m w'.
     sendMediaMessage env_ok (Some (JStr ''5511''))
        (Some (JObj [(''type'', JStr ''video''), (''url'', JStr ''https://cdn.example/v.mp4'')]))
        (Some (JStr ''1055'')) (Some (JStr ''conv-1'')) world0 = (Inr m, w')
     \<and> trace w' = trace world0 @ [AxiosPostMessages (Some (JStr ''1055'')) payload, InsertMessage m]
     \<and> messages w' = messages world0 @ [m]
     \<and> optional_member (optional_member (Some payload) ''video'') ''caption'' = Some (JStr [])
     \<and> optional_member (Some (m_media m)) ''mime_type'' = Some (JStr ''video/jpeg'')
     \<and> optional_member (Some (m_media m)) ''caption'' = Some (JStr [])"
  by (rule sendMediaMessage_video_no_caption
        [where caption = None
           and data = "Some (JObj [(''messages'', JArr [JObj [(''id'', JStr ''wamid.1'')]])])"
           and wa_id = "Some (JStr ''wamid.1'')"])
     (simp_all add: env_ok_def world0_def response_message_id_def)

text \<open>
  The claim as stated names \<open>image/jpeg\<close> as the stored mime type; the template
  \<open>${type}/${type === 'document' ? 'pdf' : 'jpeg'}\<close> keeps the type, so a video
  without a caption is stored with \<open>video/jpeg\<close>.
\<close>

theorem sendMediaMessage_video_mime_counterexample:
  "map_sum id (\<lambda>m. optional_member (Some (m_media m)) ''mime_type'')
     (fst (sendMediaMessage env_ok (Some (JStr ''5511''))
        (Some (JObj [(''type'', JStr ''video''), (''url'', JStr ''https://cdn.example/v.mp4'')]))
        (Some (JStr ''1055'')) (Some (JStr ''conv-1'')) world0))
   = Inr (Some (JStr ''video/jpeg''))
   \<and> map_sum id (\<lambda>m. optional_member (Some (m_media m)) ''mime_type'')
     (fst (sendMediaMessage env_ok (Some (JStr ''5511''))
        (Some (JObj [(''type'', JStr ''video''), (''url'', JStr ''https://cdn.example/v.mp4'')]))
        (Some (JStr ''1055'')) (Some (JStr ''conv-1'')) world0))
   \<noteq> Inr (Some (JStr ''image/jpeg''))"
  by (simp add: sendMediaMessage_def createMediaMessage_def Message_createMediaMessage_def
        Message_new_def Message_create_def post_messages_def response_message_id_def
        template_def obj_def optional_member_def io_defs env_ok_def world0_def)

section \<open>The kind of a stored media message\<close>

text \<open>
  C9. For every data object, the row \<open>Message.createMediaMessage\<close> stores has the
  type \<open>media\<close>, whatever type the data carries. So the row \<open>sendMediaMessage\<close>
  records for an outbound media reply (it passes the type \<open>bot_answer\<close>) has the
  type \<open>media\<close>: not \<open>bot_answer\<close>, and none of the kinds the specification
  enumerates.
\<close>

theorem createMediaMessage_stores_media:
  "(Message_createMediaMessage env data mediaData w = (Inr m, w') \<longrightarrow>
      m_type m = JStr ''media'' \<and> messages w' = messages w @ [m])
   \<and> (sendMediaMessage env to mediaData' phoneNumberId conversationId w = (Inr m, w') \<longrightarrow>
      m_type m = JStr ''media'' \<and> m_type m \<noteq> JStr ''bot_answer''
      \<and> m_type m \<notin> set message_kinds \<and> messages w' = messages w @ [m])"
proof -
  have media: "Message_createMediaMessage env d md v = (Inr m, v') \<Longrightarrow>
      m_type m = JStr ''media'' \<and> messages v' = messages v @ [m]" for d md v v'
  proof -
    assume run: "Message_createMediaMessage env d md v = (Inr m, v')"
    let ?d = "d(''type'' \<mapsto> JStr ''media'', ''media'' := md)"
    obtain m0 v1 where new: "Message_new env ?d v = (Inr m0, v1)" "same_store v v1"
        "m_type m0 = js_or (?d ''type'') (JStr ''text'')"
      using Message_new_total [of env ?d v] by blast
    have "Message_create env m0 v1 = (Inr m, v')"
      using run by (simp add: Message_createMediaMessage_def io_bind_def new(1))
    then have "m = m0 \<and> messages v' = messages v1 @ [m0]"
      using Message_create_cases [of env m0 v1] by auto
    then show ?thesis
      using new(2,3) by (simp add: same_store_def)
  qed
  have send: "sendMediaMessage env to mediaData' phoneNumberId conversationId w = (Inr m, w') \<Longrightarrow>
      m_type m = JStr ''media'' \<and> messages w' = messages w @ [m]"
    by (auto simp: sendMediaMessage_def createMediaMessage_def io_bind_def io_lift_def
        post_messages_def new_Date_def dest!: media split: sum.splits prod.splits)
  show ?thesis
    using media send by (auto simp: message_kinds_def)
qed

theorem createMediaMessage_stores_media_witness:
  "\<exists>m w'. sendMediaMessage env_ok (Some (JStr ''5511''))
              (Some (JObj [(''type'', JStr ''image''), (''url'', JStr ''https://cdn.example/i.png''),
                           (''caption'', JStr ''the plan'')]))
              (Some (JStr ''1055'')) (Some (JStr ''conv-1'')) world0 = (Inr m, w')
     \<and> m_type m = JStr ''media'' \<and> m_type m \<noteq> JStr ''bot_answer''
     \<and> m_type m \<notin> set message_kinds \<and> messages w' = messages world0 @ [m]"
proof -
  have "\<exists>m w'. sendMediaMessage env_ok (Some (JStr ''5511''))
              (Some (JObj [(''type'', JStr ''image''), (''url'', JStr ''https://cdn.example/i.png''),
                           (''caption'', JStr ''the plan'')]))
              (Some (JStr ''1055'')) (Some (JStr ''conv-1'')) world0 = (Inr m, w')"
    by (simp add: sendMediaMessage_def createMediaMessage_def Message_createMediaMessage_def
        Message_new_def Message_create_def post_messages_def response_message_id_def
        io_defs env_ok_def world0_def)
  then obtain m w' where run: "sendMediaMessage env_ok (Some (JStr ''5511''))
              (Some (JObj [(''type'', JStr ''image''), (''url'', JStr ''https://cdn.example/i.png''),
                           (''caption'', JStr ''the plan'')]))
              (Some (JStr ''1055'')) (Some (JStr ''conv-1'')) world0 = (Inr m, w')"
    by blast
  show ?thesis
    using createMediaMessage_stores_media [of env_ok Map.empty None world0 m w' "Some (JStr ''5511'')"
        "Some (JObj [(''type'', JStr ''image''), (''url'', JStr ''https://cdn.example/i.png''),
                           (''caption'', JStr ''the plan'')])"
        "Some (JStr ''1055'')" "Some (JStr ''conv-1'')"] run
    by blast
qed

section \<open>An event without messages\<close>

text \<open>
  C10. For every message event whose \<open>messages\<close> field is absent or the empty
  list, \<open>handleMessageEvent\<close> returns normally and leaves the world as it was: no
  conversation is created, no row is written, no request is made.
\<close>

theorem handleMessageEvent_no_messages:
  assumes "optional_member messageEvent ''messages'' = None
           \<or> optional_member messageEvent ''messages'' = Some (JArr [])"
  shows "handleMessageEvent env messageEvent w = (Inr (), w)"
proof -
  have "no_messages messageEvent"
    using assms by (auto simp: no_messages_def)
  then show ?thesis
    by (simp add: handleMessageEvent_def io_return_def)
qed

text \<open>A status notification (no \<open>messages\<close> field) and an empty list.\<close>

theorem handleMessageEvent_no_messages_witness:
  "handleMessageEvent env_ok
       (Some (JObj [(''metadata'', JObj [(''phone_number_id'', JStr ''1055'')]),
                    (''statuses'', JArr [JObj [(''status'', JStr ''delivered'')]])])) world1
     = (Inr (), world1)
   \<and> handleMessageEvent env_ok (Some (JObj [(''messages'', JArr [])])) world1 = (Inr (), world1)"
  by (intro conjI; rule handleMessageEvent_no_messages; simp add: optional_member_def)

section \<open>Failure policy of the ingestion\<close>

text \<open>
  C7. An envelope without an entry list (the envelope or its \<open>entry\<close> is absent or
  falsy) makes \<open>processWebhook\<close> return the failure value \<open>Invalid webhook data\<close>,
  with nothing done. When handling a change raises, after the entries and the changes
  before it were handled, \<open>processWebhook\<close> raises the same error in the world the
  failing step left: whatever changes and entries follow are not handled.
\<close>

theorem processWebhook_failure_policy:
  "(\<not> truthy webhookData \<or> \<not> truthy (optional_member webhookData ''entry'') \<longrightarrow>
      processWebhook env webhookData w = (Inr (Failure ''Invalid webhook data''), w))
   \<and> (optional_member webhookData ''entry'' = Some (JArr (es1 @ entry # es2))
      \<and> for_entries env es1 w = (Inr (), w1)
      \<and> member (Some entry) ''changes'' = Inr (Some (JArr (cs1 @ change # cs2)))
      \<and> for_changes env cs1 w1 = (Inr (), w2)
      \<and> member (Some change) ''field'' = Inr (Some (JStr ''messages''))
      \<and> handleMessageEvent env (optional_member (Some change) ''value'') w2 = (Inl e, w3)
      \<longrightarrow> processWebhook env webhookData w = (Inl e, w3))"
proof (intro conjI impI)
  assume "\<not> truthy webhookData \<or> \<not> truthy (optional_member webhookData ''entry'')"
  then show "processWebhook env webhookData w = (Inr (Failure ''Invalid webhook data''), w)"
    by (auto simp: processWebhook_def io_return_def)
next
  assume h: "optional_member webhookData ''entry'' = Some (JArr (es1 @ entry # es2))
      \<and> for_entries env es1 w = (Inr (), w1)
      \<and> member (Some entry) ''changes'' = Inr (Some (JArr (cs1 @ change # cs2)))
      \<and> for_changes env cs1 w1 = (Inr (), w2)
      \<and> member (Some change) ''field'' = Inr (Some (JStr ''messages''))
      \<and> handleMessageEvent env (optional_member (Some change) ''value'') w2 = (Inl e, w3)"
  then have guard: "truthy webhookData"
    using optional_member_Some_truthy by blast
  obtain v where v: "member (Some change) ''value'' = Inr v"
    using h member_defined by blast
  have change: "for_changes env (change # cs2) w2 = (Inl e, w3)"
    using h v by (simp add: member_optional [OF v] io_bind_def)
  have changes: "for_changes env (cs1 @ change # cs2) w1 = (Inl e, w3)"
    using h change by (simp add: for_changes_append io_bind_def)
  have entry: "for_entries env (entry # es2) w1 = (Inl e, w3)"
    using h changes by (simp add: io_bind_def)
  have entries: "for_entries env (es1 @ entry # es2) w = (Inl e, w3)"
    using h entry by (simp add: for_entries_append io_bind_def)
  show "processWebhook env webhookData w = (Inl e, w3)"
    using h guard entries by (simp add: processWebhook_def io_bind_def)
qed

text \<open>
  An envelope without \<open>entry\<close>; and an entry of three changes whose second, an image
  message without its media object, raises: the first change's row stays, the third
  change is not handled.
\<close>

theorem processWebhook_failure_policy_witness:
  "\<not> truthy (optional_member (Some (JObj [(''object'', JStr ''whatsapp_business_account'')])) ''entry'')
   \<and> processWebhook env_ok (Some (JObj [(''object'', JStr ''whatsapp_business_account'')])) world0
       = (Inr (Failure ''Invalid webhook data''), world0)
   \<and> optional_member (Some envelope_abort) ''entry'' = Some (JArr ([] @ entry_abort # []))
   \<and> for_entries env_ok [] world0 = (Inr (), world0)
   \<and> member (Some entry_abort) ''changes''
       = Inr (Some (JArr ([messages_change [text_message ''wamid.A'' ''hello'']]
                          @ messages_change [image_without_media]
                          # [messages_change [text_message ''wamid.C'' ''still there?'']])))
   \<and> for_changes env_ok [messages_change [text_message ''wamid.A'' ''hello'']] world0
       = (Inr (), snd (for_changes env_ok [messages_change [text_message ''wamid.A'' ''hello'']] world0))
   \<and> member (Some (messages_change [image_without_media])) ''field'' = Inr (Some (JStr ''messages''))
   \<and> handleMessageEvent env_ok (optional_member (Some (messages_change [image_without_media])) ''value'')
        (snd (for_changes env_ok [messages_change [text_message ''wamid.A'' ''hello'']] world0))
       = (Inl (Error ''Invalid media data''),
          snd (handleMessageEvent env_ok
                 (optional_member (Some (messages_change [image_without_media])) ''value'')
                 (snd (for_changes env_ok [messages_change [text_message ''wamid.A'' ''hello'']] world0))))
   \<and> processWebhook env_ok (Some envelope_abort) world0
       = (Inl (Error ''Invalid media data''),
          snd (handleMessageEvent env_ok
                 (optional_member (Some (messages_change [image_without_media])) ''value'')
                 (snd (for_changes env_ok [messages_change [text_message ''wamid.A'' ''hello'']] world0))))
   \<and> map m_wa_id (messages (snd (processWebhook env_ok (Some envelope_abort) world0)))
       = [JStr ''wamid.A'']"
proof -
  let ?w2 = "snd (for_changes env_ok [messages_change [text_message ''wamid.A'' ''hello'']] world0)"
  let ?w3 = "snd (handleMessageEvent env_ok
                 (optional_member (Some (messages_change [image_without_media])) ''value'') ?w2)"
  have missing: "\<not> truthy (optional_member (Some (JObj [(''object'', JStr ''whatsapp_business_account'')])) ''entry'')"
    by (simp add: optional_member_def)
  have entries: "optional_member (Some envelope_abort) ''entry'' = Some (JArr ([] @ entry_abort # []))"
    by (simp add: optional_member_def envelope_abort_def)
  have before: "for_entries env_ok [] world0 = (Inr (), world0)"
    by (simp add: io_return_def)
  have changes: "member (Some entry_abort) ''changes''
       = Inr (Some (JArr ([messages_change [text_message ''wamid.A'' ''hello'']]
                          @ messages_change [image_without_media]
                          # [messages_change [text_message ''wamid.C'' ''still there?'']])))"
    by (simp add: entry_abort_def)
  have first: "for_changes env_ok [messages_change [text_message ''wamid.A'' ''hello'']] world0 = (Inr (), ?w2)"
    by (simp add: model_defs io_defs env_ok_def world0_def messages_change_def text_message_def)
  have field: "member (Some (messages_change [image_without_media])) ''field'' = Inr (Some (JStr ''messages''))"
    by (simp add: messages_change_def)
  have raises: "handleMessageEvent env_ok
        (optional_member (Some (messages_change [image_without_media])) ''value'') ?w2
       = (Inl (Error ''Invalid media data''), ?w3)"
    by (simp add: model_defs io_defs env_ok_def world0_def messages_change_def text_message_def
        image_without_media_def)
  have aborted: "processWebhook env_ok (Some envelope_abort) world0 = (Inl (Error ''Invalid media data''), ?w3)"
    using processWebhook_failure_policy [of "Some envelope_abort" env_ok world0 "[]" entry_abort "[]"
        world0 "[messages_change [text_message ''wamid.A'' ''hello'']]"
        "messages_change [image_without_media]"
        "[messages_change [text_message ''wamid.C'' ''still there?'']]" ?w2
        "Error ''Invalid media data''" ?w3]
      entries before changes first field raises
    by blast
  have policy: "processWebhook env_ok (Some (JObj [(''object'', JStr ''whatsapp_business_account'')])) world0
       = (Inr (Failure ''Invalid webhook data''), world0)"
    using processWebhook_failure_policy [of "Some (JObj [(''object'', JStr ''whatsapp_business_account'')])"
        env_ok world0] missing
    by blast
  have rows: "map m_wa_id (messages ?w3) = [JStr ''wamid.A'']"
    by (simp add: model_defs io_defs env_ok_def world0_def messages_change_def text_message_def
        image_without_media_def)
  show ?thesis
    using missing policy entries before changes first field raises aborted rows
    by simp
qed

section \<open>One row per change\<close>




section \<open>The poll timeout\<close>

text \<open>
  C4. Take a request for which the lookups and the steps before polling succeed (the
  run was created and its id merged into the config), and an environment in which
  some clock reading lies more than 120000 ms after the start and every poll up to
  it reports a status among \<open>queued\<close>, \<open>in_progress\<close>, \<open>cancelling\<close>. Then the orchestration
  and its caller fail with the error \<open>Run <id> timeout after 120000ms\<close>. After the run
  was started the process has only retrieved the run status: no message is sent and no
  row written, nothing is requested of the run but its status (the client has no
  cancellation call), the stored conversations are as they were when polling began,
  and the config, in the object and in the stored rows of the conversation, holds the
  run id.
\<close>

theorem processConversation_poll_timeout:
  assumes lookup: "lookup_for_AI env body w = (Inr ((conversationId, phoneNumberId), conversation, message), w1)"
    and started: "start_run env (m_text message) (conv_config conversation) (conversation, w1)
                    = (Inr (threadId, r), (conversation', w2))"
    and polls: "\<forall>k\<le>m. \<exists>r'. threads_runs_retrieve env (n_http w2 + k) = Inr r' \<and> in_progress r'"
    and budget: "clock env (n_now w2 + 1 + m) - clock env (n_now w2) > 120000"
  shows "\<exists>j w'. j \<le> m
     \<and> processConversation env (m_text message) (conversation, w1)
         = Some (Inl (Error (''Run '' @ run_id r @ '' timeout after 120000ms'')), (conversation', w'))
     \<and> processMessageWithAI env body w
         = Some (Inl (Error (''Run '' @ run_id r @ '' timeout after 120000ms'')), w')
     \<and> trace w' = trace w2 @ replicate (Suc j) (ThreadsRunsRetrieve threadId (run_id r))
     \<and> messages w' = messages w1 \<and> conversations w' = conversations w2
     \<and> conv_config conversation' ''run_id'' = Some (JStr (run_id r))
     \<and> (\<forall>row. row \<in> set (conversations w') \<and> conv_id row = conv_id conversation
            \<longrightarrow> conv_config row ''run_id'' = Some (JStr (run_id r)))"
proof -
  obtain rs where rs: "\<forall>k\<le>m. threads_runs_retrieve env (n_http w2 + k) = Inr (rs k) \<and> in_progress (rs k)"
    using polls by metis
  define j where "j = (LEAST j. clock env (n_now w2 + 1 + j) - clock env (n_now w2) > 120000)"
  have over: "clock env (n_now w2 + 1 + j) - clock env (n_now w2) > 120000"
    unfolding j_def using budget by (rule LeastI)
  have le: "j \<le> m"
    unfolding j_def using budget by (rule Least_le)
  have under: "\<forall>k<j. clock env (n_now w2 + 1 + k) - clock env (n_now w2) \<le> int 120000"
  proof (intro allI impI)
    fix k assume "k < j"
    then have "\<not> clock env (n_now w2 + 1 + k) - clock env (n_now w2) > 120000"
      unfolding j_def by (rule not_less_Least)
    then show "clock env (n_now w2 + 1 + k) - clock env (n_now w2) \<le> int 120000" by simp
  qed
  let ?w' = "w2\<lparr>trace := trace w2 @ replicate (Suc j) (ThreadsRunsRetrieve threadId (run_id r)),
                n_http := n_http w2 + Suc j, n_now := n_now w2 + Suc (Suc j)\<rparr>"
  let ?e = "Error (''Run '' @ run_id r @ '' timeout after 120000ms'')"
  have wait: "waitForRun env threadId (run_id r) 1000 120000 w2 = Some (Inl ?e, ?w')"
    using waitForRun_timeout [of j env w2 rs 120000 threadId "run_id r" 1000] rs le over under
    by (simp add: string_of_nat_120000)
  have conv: "processConversation env (m_text message) (conversation, w1) = Some (Inl ?e, (conversation', ?w'))"
    by (simp add: processConversation_def started wait)
  have ai: "processMessageWithAI env body w = Some (Inl ?e, ?w')"
    by (simp add: processMessageWithAI_def lookup conv)
  have kept: "conv_config conversation' ''run_id'' = Some (JStr (run_id r))
     \<and> (\<forall>row \<in> set (conversations w2). conv_id row = conv_id conversation \<longrightarrow> conv_config row = conv_config conversation')
     \<and> messages w2 = messages w1"
    using start_run_Inr [OF started] by simp
  show ?thesis
    using le conv ai kept
    by (intro exI [of _ j] exI [of _ ?w']) auto
qed

text \<open>The run stays in progress; the third clock reading after the start exceeds the
  budget.\<close>

theorem processConversation_poll_timeout_witness:
  "\<exists>j w'. j \<le> 2
     \<and> processConversation env_busy (m_text msg0) (conv0, world1\<lparr>n_db := 2\<rparr>)
         = Some (Inl (Error (''Run '' @ run_id \<lparr> run_id = ''run_1'', run_status = ''queued'' \<rparr>
                               @ '' timeout after 120000ms'')), (fst started_busy, w'))
     \<and> processMessageWithAI env_busy (Some body1) world1
         = Some (Inl (Error (''Run '' @ run_id \<lparr> run_id = ''run_1'', run_status = ''queued'' \<rparr>
                               @ '' timeout after 120000ms'')), w')
     \<and> trace w' = trace (snd started_busy)
          @ replicate (Suc j) (ThreadsRunsRetrieve (JStr ''thread_1'')
                                 (run_id \<lparr> run_id = ''run_1'', run_status = ''queued'' \<rparr>))
     \<and> messages w' = messages (world1\<lparr>n_db := 2\<rparr>)
     \<and> conversations w' = conversations (snd started_busy)
     \<and> conv_config (fst started_busy) ''run_id''
         = Some (JStr (run_id \<lparr> run_id = ''run_1'', run_status = ''queued'' \<rparr>))
     \<and> (\<forall>row. row \<in> set (conversations w') \<and> conv_id row = conv_id conv0
            \<longrightarrow> conv_config row ''run_id''
                = Some (JStr (run_id \<lparr> run_id = ''run_1'', run_status = ''queued'' \<rparr>)))"
proof (rule processConversation_poll_timeout)
  show "lookup_for_AI env_busy (Some body1) world1
      = (Inr ((Some (JStr ''conv-1''), Some (JStr ''1055'')), conv0, msg0), world1\<lparr>n_db := 2\<rparr>)"
    by (simp add: lookup_for_AI_def model_defs io_defs env_busy_def env_ok_def body1_def
        world1_def world0_def conv0_def msg0_def)
  show "start_run env_busy (m_text msg0) (conv_config conv0) (conv0, world1\<lparr>n_db := 2\<rparr>)
      = (Inr (JStr ''thread_1'', \<lparr> run_id = ''run_1'', run_status = ''queued'' \<rparr>),
         (fst started_busy, snd started_busy))"
  proof -
    have "\<exists>s. start_run env_busy (m_text msg0) (conv_config conv0) (conv0, world1\<lparr>n_db := 2\<rparr>)
        = (Inr (JStr ''thread_1'', \<lparr> run_id = ''run_1'', run_status = ''queued'' \<rparr>), s)"
      by (rule exI, rule start_run_new_thread)
         (simp_all add: env_busy_def env_ok_def world1_def world0_def conv0_def)
    then show ?thesis
      unfolding started_busy_def by auto
  qed
  show "\<forall>k\<le>2. \<exists>r'. threads_runs_retrieve env_busy (n_http (snd started_busy) + k) = Inr r'
                  \<and> in_progress r'"
    by (simp add: env_busy_def in_progress_def)
  show "120000 < clock env_busy (n_now (snd started_busy) + 1 + 2)
                  - clock env_busy (n_now (snd started_busy))"
    by (simp add: env_busy_def)
qed

section \<open>The first reply of a conversation\<close>

text \<open>
  C1 (as amended). Take a request whose lookups succeed and whose conversation has no
  thread id in its config, and an environment in which the storage operations and the
  remote calls of the orchestration succeed, the polls report a status among
  \<open>queued\<close>, \<open>in_progress\<close>, \<open>cancelling\<close> until poll \<open>n\<close> reports another
  one, and the clock stays within 120000 ms of the start until then. Then
  \<open>processConversation\<close> returns the head of the sorted assistant messages of the
  thread (\<open>null\<close> when there is none), and what it has done, in order, is: one
  thread creation; the merge of the thread id into the config, stored at once; one
  message appended to the thread; one run creation; the merge of the run id, stored
  at once; \<open>n + 1\<close> status retrievals, the last one being the first outside the
  three statuses; one listing of the thread. The caller then goes one of two ways.
  When that head exists and has at least one content part, and the platform accepts
  the message and the row can be stored, the caller sends the reply text to the
  contact, stores one row of type \<open>bot_answer\<close> and status \<open>sent\<close> holding it,
  and answers 200 with that row's id. When there is no such message, or it has no
  content part, the caller raises \<open>ApiError 500 No response from AI\<close> in the state
  the orchestration left: nothing is sent and no row is stored.
\<close>

theorem processMessageWithAI_new_thread:
  fixes rs :: "nat \<Rightarrow> run"
  assumes lookup: "lookup_for_AI env body w
                     = (Inr ((conversationId, phoneNumberId), conversation, message), w1)"
    and no_thread: "\<not> truthy (conv_config conversation ''thread_id'')"
    and storage: "db_outcome env (n_db w1) = DbOk" "db_outcome env (n_db w1 + 1) = DbOk"
    and thread: "threads_create env (n_http w1) = Inr thread_id"
    and appended: "threads_messages_create env (n_http w1 + 1) = Inr ()"
    and run: "threads_runs_create env (n_http w1 + 2) = Inr r"
    and polls: "\<forall>k\<le>n. threads_runs_retrieve env (n_http w1 + 3 + k) = Inr (rs k)"
    and busy: "\<forall>k<n. in_progress (rs k)"
    and settled: "\<not> in_progress (rs n)"
    and budget: "\<forall>k<n. clock env (n_now w1 + 3 + k) - clock env (n_now w1 + 2) \<le> 120000"
    and listing: "threads_messages_list env (n_http w1 + 4 + n) = Inr ms"
    and ranked: "assistantMessages
                   = Array_sort env compare_created_at (filter (\<lambda>msg. tm_role msg = ''assistant'') ms)"
  shows "\<exists>conversation' w4.
     processConversation env (m_text message) (conversation, w1)
       = Some (Inr (case assistantMessages of [] \<Rightarrow> None | newest # older \<Rightarrow> Some newest),
               (conversation', w4))
     \<and> trace w4 = trace w1 @
          [ThreadsCreate,
           UpdateConversationConfig (conv_id conversation)
             ((conv_config conversation)(''thread_id'' \<mapsto> JStr thread_id))
             (JDate (clock env (n_now w1))),
           ThreadsMessagesCreate (JStr thread_id) (m_text message),
           ThreadsRunsCreate (JStr thread_id)
             (js_or_val (conv_config conversation ''assistant_openai_id'') (this_assistantId env)),
           UpdateConversationConfig (conv_id conversation)
             ((conv_config conversation)(''thread_id'' \<mapsto> JStr thread_id,
                                         ''run_id'' \<mapsto> JStr (run_id r)))
             (JDate (clock env (n_now w1 + 1)))]
          @ replicate (Suc n) (ThreadsRunsRetrieve (JStr thread_id) (run_id r))
          @ [ThreadsMessagesList (JStr thread_id)]
     \<and> messages w4 = messages w1
     \<and> conv_config conversation'
           = (conv_config conversation)(''thread_id'' \<mapsto> JStr thread_id, ''run_id'' \<mapsto> JStr (run_id r))
     \<and> (\<forall>c \<in> set (conversations w4). conv_id c = conv_id conversation \<longrightarrow>
           conv_config c = (conv_config conversation)(''thread_id'' \<mapsto> JStr thread_id,
                                                      ''run_id'' \<mapsto> JStr (run_id r)))
     \<and> (\<forall>reply older data wa_id.
           assistantMessages = reply # older \<and> tm_content reply \<noteq> []
           \<and> axios_post env (n_http w1 + 5 + n) = Inr data \<and> response_message_id data = Inr wa_id
           \<and> db_outcome env (n_db w1 + 2) = DbOk \<longrightarrow>
           (\<exists>row w'.
              processMessageWithAI env body w
                = Some (Inr \<lparr> res_status = 200,
                              res_body = Some (obj [(''success'', Some (JBool True)),
                                                    (''messageId'', Some (m_id row))]) \<rparr>, w')
              \<and> trace w' = trace w4 @
                   [AxiosPostMessages phoneNumberId
                      (obj [(''messaging_product'', Some (JStr ''whatsapp'')),
                            (''recipient_type'', Some (JStr ''individual'')),
                            (''to'', conv_wa_id conversation),
                            (''type'', Some (JStr ''text'')),
                            (''text'', Some (obj [(''body'', Some (JStr (responseText (tm_content reply))))]))]),
                    InsertMessage row]
              \<and> messages w' = messages w1 @ [row] \<and> conversations w' = conversations w4
              \<and> m_type row = JStr ''bot_answer'' \<and> m_status row = JStr ''sent''
              \<and> m_text row = js_or (Some (JStr (responseText (tm_content reply)))) JNull
              \<and> m_conversation_id row = conversationId))
     \<and> (assistantMessages = [] \<or> (\<exists>reply older. assistantMessages = reply # older \<and> tm_content reply = [])
          \<longrightarrow> processMessageWithAI env body w = Some (Inl (ApiError 500 ''No response from AI''), w4))"
proof -
  let ?cfg1 = "(conv_config conversation)(''thread_id'' \<mapsto> JStr thread_id)"
  let ?cfg2 = "(conv_config conversation)(''thread_id'' \<mapsto> JStr thread_id, ''run_id'' \<mapsto> JStr (run_id r))"
  let ?poll = "ThreadsRunsRetrieve (JStr thread_id) (run_id r)"
  let ?answer = "case assistantMessages of [] \<Rightarrow> None | newest # older \<Rightarrow> Some newest"
  define c2 where "c2 = conversation\<lparr>conv_config := ?cfg2,
                          conv_updated_at := JDate (clock env (Suc (n_now w1)))\<rparr>"
  define w2 where "w2 = w1\<lparr>conversations :=
            map (set_row_config (conv_id conversation) ?cfg2 (JDate (clock env (Suc (n_now w1)))))
              (map (set_row_config (conv_id conversation) ?cfg1 (JDate (clock env (n_now w1))))
                 (conversations w1)),
          trace := trace w1 @
            [ThreadsCreate,
             UpdateConversationConfig (conv_id conversation) ?cfg1 (JDate (clock env (n_now w1))),
             ThreadsMessagesCreate (JStr thread_id) (m_text message),
             ThreadsRunsCreate (JStr thread_id)
               (js_or_val (conv_config conversation ''assistant_openai_id'') (this_assistantId env)),
             UpdateConversationConfig (conv_id conversation) ?cfg2 (JDate (clock env (Suc (n_now w1))))],
          n_db := Suc (Suc (n_db w1)),
          n_http := Suc (Suc (Suc (n_http w1))),
          n_now := Suc (Suc (n_now w1))\<rparr>"
  have started: "start_run env (m_text message) (conv_config conversation) (conversation, w1)
      = (Inr (JStr thread_id, r), (c2, w2))"
    unfolding c2_def w2_def
    using no_thread thread storage(1,2) appended run
    by (intro start_run_new_thread) (simp_all add: eval_nat_numeral)
  have w2: "n_http w2 = n_http w1 + 3" "n_now w2 = n_now w1 + 2" "n_db w2 = n_db w1 + 2"
    "messages w2 = messages w1"
    by (simp_all add: w2_def)
  define w3 where "w3 = w2\<lparr>trace := trace w2 @ replicate (Suc n) ?poll,
             n_http := n_http w2 + Suc n, n_now := n_now w2 + Suc n\<rparr>"
  have wait: "waitForRun env (JStr thread_id) (run_id r) 1000 120000 w2 = Some (Inr (rs n), w3)"
    unfolding w3_def
  proof (rule waitForRun_completes)
    show "\<forall>k\<le>n. threads_runs_retrieve env (n_http w2 + k) = Inr (rs k)"
      using polls by (simp add: w2)
    show "\<forall>k<n. in_progress (rs k)" by (rule busy)
    show "\<not> in_progress (rs n)" by (rule settled)
    show "\<forall>k<n. clock env (n_now w2 + 1 + k) - clock env (n_now w2) \<le> int 120000"
    proof (intro allI impI)
      fix k assume "k < n"
      then have "clock env (n_now w1 + 3 + k) - clock env (n_now w1 + 2) \<le> 120000"
        using budget by simp
      moreover have "n_now w2 + 1 + k = n_now w1 + 3 + k" by (simp add: w2)
      ultimately show "clock env (n_now w2 + 1 + k) - clock env (n_now w2) \<le> int 120000"
        by (simp add: w2 numeral_2_eq_2 numeral_3_eq_3)
    qed
  qed
  have w3: "n_http w3 = n_http w1 + 4 + n" "n_db w3 = n_db w1 + 2" "messages w3 = messages w1"
    "conversations w3 = conversations w2"
    "trace w3 = trace w2 @ replicate (Suc n) ?poll"
    by (simp_all add: w3_def w2)
  define w4 where "w4 = w3\<lparr>trace := trace w3 @ [ThreadsMessagesList (JStr thread_id)],
                            n_http := Suc (n_http w3)\<rparr>"
  have list: "getLastAssistantMessage env (JStr thread_id) w3 = (Inr ?answer, w4)"
    unfolding w4_def ranked
    using listing by (intro getLastAssistantMessage_listed) (simp add: w3)
  have w4: "n_http w4 = n_http w1 + 5 + n" "n_db w4 = n_db w1 + 2" "messages w4 = messages w1"
    "conversations w4 = conversations w2"
    "trace w4 = trace w2 @ replicate (Suc n) ?poll @ [ThreadsMessagesList (JStr thread_id)]"
    by (simp_all add: w4_def w3)
  have conv: "processConversation env (m_text message) (conversation, w1)
      = Some (Inr ?answer, (c2, w4))"
    by (simp add: processConversation_def started wait in_world_apply list)
  have tr: "trace w2 = trace w1 @
            [ThreadsCreate,
             UpdateConversationConfig (conv_id conversation) ?cfg1 (JDate (clock env (n_now w1))),
             ThreadsMessagesCreate (JStr thread_id) (m_text message),
             ThreadsRunsCreate (JStr thread_id)
               (js_or_val (conv_config conversation ''assistant_openai_id'') (this_assistantId env)),
             UpdateConversationConfig (conv_id conversation) ?cfg2 (JDate (clock env (n_now w1 + 1)))]"
    by (simp add: w2_def)
  have tr4: "trace w4 = trace w1 @
            [ThreadsCreate,
             UpdateConversationConfig (conv_id conversation) ?cfg1 (JDate (clock env (n_now w1))),
             ThreadsMessagesCreate (JStr thread_id) (m_text message),
             ThreadsRunsCreate (JStr thread_id)
               (js_or_val (conv_config conversation ''assistant_openai_id'') (this_assistantId env)),
             UpdateConversationConfig (conv_id conversation) ?cfg2 (JDate (clock env (n_now w1 + 1)))]
            @ replicate (Suc n) ?poll @ [ThreadsMessagesList (JStr thread_id)]"
    by (simp add: w4 tr)
  have cfg: "conv_config c2 = ?cfg2"
    by (simp add: c2_def)
  have rows: "\<forall>c \<in> set (conversations w4). conv_id c = conv_id conversation \<longrightarrow> conv_config c = ?cfg2"
    by (auto simp: w4 w2_def set_row_config_def split: if_splits)
  have wa: "conv_wa_id c2 = conv_wa_id conversation"
    by (simp add: c2_def)
  have answered: "\<forall>reply older data wa_id.
           assistantMessages = reply # older \<and> tm_content reply \<noteq> []
           \<and> axios_post env (n_http w1 + 5 + n) = Inr data \<and> response_message_id data = Inr wa_id
           \<and> db_outcome env (n_db w1 + 2) = DbOk \<longrightarrow>
           (\<exists>row w'.
              processMessageWithAI env body w
                = Some (Inr \<lparr> res_status = 200,
                              res_body = Some (obj [(''success'', Some (JBool True)),
                                                    (''messageId'', Some (m_id row))]) \<rparr>, w')
              \<and> trace w' = trace w4 @
                   [AxiosPostMessages phoneNumberId
                      (obj [(''messaging_product'', Some (JStr ''whatsapp'')),
                            (''recipient_type'', Some (JStr ''individual'')),
                            (''to'', conv_wa_id conversation),
                            (''type'', Some (JStr ''text'')),
                            (''text'', Some (obj [(''body'', Some (JStr (responseText (tm_content reply))))]))]),
                    InsertMessage row]
              \<and> messages w' = messages w1 @ [row] \<and> conversations w' = conversations w4
              \<and> m_type row = JStr ''bot_answer'' \<and> m_status row = JStr ''sent''
              \<and> m_text row = js_or (Some (JStr (responseText (tm_content reply)))) JNull
              \<and> m_conversation_id row = conversationId)"
  proof (intro allI impI, elim conjE)
    fix reply older data wa_id
    assume head: "assistantMessages = reply # older" and content: "tm_content reply \<noteq> []"
      and post: "axios_post env (n_http w1 + 5 + n) = Inr data"
      and ident: "response_message_id data = Inr wa_id"
      and db: "db_outcome env (n_db w1 + 2) = DbOk"
    let ?payload = "obj [(''messaging_product'', Some (JStr ''whatsapp'')),
                     (''recipient_type'', Some (JStr ''individual'')),
                     (''to'', conv_wa_id conversation),
                     (''type'', Some (JStr ''text'')),
                     (''text'', Some (obj [(''body'', Some (JStr (responseText (tm_content reply))))]))]"
    obtain row w' where send:
      "sendTextMessage env (conv_wa_id conversation) (Some (JStr (responseText (tm_content reply))))
         phoneNumberId conversationId w4 = (Inr row, w')"
      "trace w' = trace w4 @ [AxiosPostMessages phoneNumberId ?payload, InsertMessage row]"
      "messages w' = messages w4 @ [row]" "conversations w' = conversations w4"
      "m_type row = JStr ''bot_answer''" "m_status row = JStr ''sent''"
      "m_text row = js_or (Some (JStr (responseText (tm_content reply)))) JNull"
      "m_conversation_id row = conversationId"
      using sendTextMessage_ok [of env w4 data wa_id "conv_wa_id conversation"
          "Some (JStr (responseText (tm_content reply)))" phoneNumberId conversationId]
        post ident db
      by (auto simp: w4)
    have ai: "processMessageWithAI env body w
       = Some (Inr \<lparr> res_status = 200,
                     res_body = Some (obj [(''success'', Some (JBool True)),
                                           (''messageId'', Some (m_id row))]) \<rparr>, w')"
      using content
      by (simp add: processMessageWithAI_def lookup conv head wa io_bind_def send(1) io_return_def)
    show "\<exists>row w'.
              processMessageWithAI env body w
                = Some (Inr \<lparr> res_status = 200,
                              res_body = Some (obj [(''success'', Some (JBool True)),
                                                    (''messageId'', Some (m_id row))]) \<rparr>, w')
              \<and> trace w' = trace w4 @ [AxiosPostMessages phoneNumberId ?payload, InsertMessage row]
              \<and> messages w' = messages w1 @ [row] \<and> conversations w' = conversations w4
              \<and> m_type row = JStr ''bot_answer'' \<and> m_status row = JStr ''sent''
              \<and> m_text row = js_or (Some (JStr (responseText (tm_content reply)))) JNull
              \<and> m_conversation_id row = conversationId"
      using ai send(2-8) by (intro exI [of _ row] exI [of _ w']) (simp add: w4)
  qed
  have silent: "assistantMessages = [] \<or> (\<exists>reply older. assistantMessages = reply # older \<and> tm_content reply = [])
          \<longrightarrow> processMessageWithAI env body w = Some (Inl (ApiError 500 ''No response from AI''), w4)"
    by (auto simp: processMessageWithAI_def lookup conv)
  show ?thesis
    apply (intro exI [of _ c2] exI [of _ w4] conjI)
          apply (rule conv)
         apply (rule tr4)
        apply (rule w4(3))
       apply (rule cfg)
      apply (rule rows)
     apply (rule answered)
    apply (rule silent)
    done
qed

text \<open>The stored conversation has no thread and the run completes at the third poll.
  With the thread of four messages the newest assistant message is sent and stored;
  with a thread whose assistant message has no content part the caller raises.\<close>

theorem processMessageWithAI_new_thread_witness:
  "(\<exists>row w' (w4 :: world).
      processMessageWithAI env_reply (Some body1) world1
        = Some (Inr \<lparr> res_status = 200,
                      res_body = Some (obj [(''success'', Some (JBool True)),
                                            (''messageId'', Some (m_id row))]) \<rparr>, w')
      \<and> trace w4 = trace (world1\<lparr>n_db := 2\<rparr>) @
          [ThreadsCreate,
           UpdateConversationConfig (conv_id conv0)
             ((conv_config conv0)(''thread_id'' \<mapsto> JStr ''thread_1''))
             (JDate (clock env_reply (n_now (world1\<lparr>n_db := 2\<rparr>)))),
           ThreadsMessagesCreate (JStr ''thread_1'') (m_text msg0),
           ThreadsRunsCreate (JStr ''thread_1'')
             (js_or_val (conv_config conv0 ''assistant_openai_id'') (this_assistantId env_reply)),
           UpdateConversationConfig (conv_id conv0)
             ((conv_config conv0)(''thread_id'' \<mapsto> JStr ''thread_1'',
                ''run_id'' \<mapsto> JStr (run_id \<lparr> run_id = ''run_1'', run_status = ''queued'' \<rparr>)))
             (JDate (clock env_reply (n_now (world1\<lparr>n_db := 2\<rparr>) + 1)))]
          @ replicate (Suc 2) (ThreadsRunsRetrieve (JStr ''thread_1'')
                                 (run_id \<lparr> run_id = ''run_1'', run_status = ''queued'' \<rparr>))
          @ [ThreadsMessagesList (JStr ''thread_1'')]
      \<and> trace w' = trace w4 @
          [AxiosPostMessages (Some (JStr ''1055''))
             (obj [(''messaging_product'', Some (JStr ''whatsapp'')),
                   (''recipient_type'', Some (JStr ''individual'')),
                   (''to'', conv_wa_id conv0),
                   (''type'', Some (JStr ''text'')),
                   (''text'', Some (obj [(''body'', Some (JStr (responseText (tm_content (thread0 ! 2)))))]))]),
           InsertMessage row]
      \<and> messages w' = messages (world1\<lparr>n_db := 2\<rparr>) @ [row]
      \<and> m_type row = JStr ''bot_answer'' \<and> m_status row = JStr ''sent''
      \<and> m_text row = js_or (Some (JStr (responseText (tm_content (thread0 ! 2))))) JNull
      \<and> m_conversation_id row = Some (JStr ''conv-1''))
   \<and> (\<exists>w4.
      processMessageWithAI env_blank (Some body1) world1
        = Some (Inl (ApiError 500 ''No response from AI''), w4)
      \<and> messages w4 = messages (world1\<lparr>n_db := 2\<rparr>)
      \<and> trace w4 = trace (world1\<lparr>n_db := 2\<rparr>) @
          [ThreadsCreate,
           UpdateConversationConfig (conv_id conv0)
             ((conv_config conv0)(''thread_id'' \<mapsto> JStr ''thread_1''))
             (JDate (clock env_blank (n_now (world1\<lparr>n_db := 2\<rparr>)))),
           ThreadsMessagesCreate (JStr ''thread_1'') (m_text msg0),
           ThreadsRunsCreate (JStr ''thread_1'')
             (js_or_val (conv_config conv0 ''assistant_openai_id'') (this_assistantId env_blank)),
           UpdateConversationConfig (conv_id conv0)
             ((conv_config conv0)(''thread_id'' \<mapsto> JStr ''thread_1'',
                ''run_id'' \<mapsto> JStr (run_id \<lparr> run_id = ''run_1'', run_status = ''queued'' \<rparr>)))
             (JDate (clock env_blank (n_now (world1\<lparr>n_db := 2\<rparr>) + 1)))]
          @ replicate (Suc 2) (ThreadsRunsRetrieve (JStr ''thread_1'')
                                 (run_id \<lparr> run_id = ''run_1'', run_status = ''queued'' \<rparr>))
          @ [ThreadsMessagesList (JStr ''thread_1'')])"
  (is "?first \<and> ?second")
proof (rule conjI)
  let ?r = "\<lparr> run_id = ''run_1'', run_status = ''queued'' \<rparr>"
  let ?w1 = "world1\<lparr>n_db := 2\<rparr>"
  have lookup: "lookup_for_AI env_reply (Some body1) world1
      = (Inr ((Some (JStr ''conv-1''), Some (JStr ''1055'')), conv0, msg0), ?w1)"
    by (simp add: lookup_for_AI_def model_defs io_defs env_reply_def env_thread_def env_ok_def
        body1_def world1_def world0_def conv0_def msg0_def)
  have no_thread: "\<not> truthy (conv_config conv0 ''thread_id'')"
    by (simp add: conv0_def)
  have storage: "db_outcome env_reply (n_db ?w1) = DbOk" "db_outcome env_reply (n_db ?w1 + 1) = DbOk"
      "db_outcome env_reply (n_db ?w1 + 2) = DbOk"
    by (simp_all add: env_reply_def env_thread_def env_ok_def)
  have thread: "threads_create env_reply (n_http ?w1) = Inr ''thread_1''"
    by (simp add: env_reply_def env_thread_def env_ok_def)
  have appended: "threads_messages_create env_reply (n_http ?w1 + 1) = Inr ()"
    by (simp add: env_reply_def env_thread_def env_ok_def)
  have run: "threads_runs_create env_reply (n_http ?w1 + 2) = Inr ?r"
    by (simp add: env_reply_def env_thread_def env_ok_def)
  have polls: "\<forall>k\<le>2. threads_runs_retrieve env_reply (n_http ?w1 + 3 + k) = Inr (polls_then_completed k)"
    by (simp add: env_reply_def env_thread_def env_ok_def world1_def world0_def)
  have busy: "\<forall>k<2. in_progress (polls_then_completed k)"
    by (simp add: polls_then_completed_def in_progress_def)
  have settled: "\<not> in_progress (polls_then_completed 2)"
    by (simp add: polls_then_completed_def in_progress_def)
  have budget: "\<forall>k<2. clock env_reply (n_now ?w1 + 3 + k) - clock env_reply (n_now ?w1 + 2) \<le> 120000"
    by (simp add: env_reply_def env_thread_def env_ok_def world1_def world0_def)
  have listing: "threads_messages_list env_reply (n_http ?w1 + 4 + 2) = Inr thread0"
    by (simp add: env_reply_def env_thread_def)
  have "Array_sort env_reply compare_created_at [thread0 ! 0, thread0 ! 2]
      = sort_key (\<lambda>m. - tm_created_at m) [thread0 ! 0, thread0 ! 2]"
    by (rule Array_sort_in_range) (simp add: thread0_def)
  moreover have "filter (\<lambda>msg. tm_role msg = ''assistant'') thread0 = [thread0 ! 0, thread0 ! 2]"
    by (simp add: thread0_def)
  ultimately have ranked: "thread0 ! 2 # [thread0 ! 0]
      = Array_sort env_reply compare_created_at (filter (\<lambda>msg. tm_role msg = ''assistant'') thread0)"
    by (simp add: thread0_def)
  have content: "tm_content (thread0 ! 2) \<noteq> []"
    by (simp add: thread0_def)
  have post: "axios_post env_reply (n_http ?w1 + 5 + 2)
      = Inr (Some (JObj [(''messages'', JArr [JObj [(''id'', JStr ''wamid.1'')]])]))"
    by (simp add: env_reply_def env_thread_def env_ok_def)
  have ident: "response_message_id (Some (JObj [(''messages'', JArr [JObj [(''id'', JStr ''wamid.1'')]])]))
      = Inr (Some (JStr ''wamid.1''))"
    by (simp add: response_message_id_def)
  note main = processMessageWithAI_new_thread [OF lookup no_thread storage(1,2) thread appended run
      polls busy settled budget listing ranked]
  from main show ?first
  proof (elim exE conjE)
    fix conversation' :: conversation and w4 :: world
    assume tr: "trace w4 = trace ?w1 @
          [ThreadsCreate,
           UpdateConversationConfig (conv_id conv0)
             ((conv_config conv0)(''thread_id'' \<mapsto> JStr ''thread_1''))
             (JDate (clock env_reply (n_now ?w1))),
           ThreadsMessagesCreate (JStr ''thread_1'') (m_text msg0),
           ThreadsRunsCreate (JStr ''thread_1'')
             (js_or_val (conv_config conv0 ''assistant_openai_id'') (this_assistantId env_reply)),
           UpdateConversationConfig (conv_id conv0)
             ((conv_config conv0)(''thread_id'' \<mapsto> JStr ''thread_1'', ''run_id'' \<mapsto> JStr (run_id ?r)))
             (JDate (clock env_reply (n_now ?w1 + 1)))]
          @ replicate (Suc 2) (ThreadsRunsRetrieve (JStr ''thread_1'') (run_id ?r))
          @ [ThreadsMessagesList (JStr ''thread_1'')]"
      and answered: "\<forall>reply older data wa_id.
           thread0 ! 2 # [thread0 ! 0] = reply # older \<and> tm_content reply \<noteq> []
           \<and> axios_post env_reply (n_http ?w1 + 5 + 2) = Inr data \<and> response_message_id data = Inr wa_id
           \<and> db_outcome env_reply (n_db ?w1 + 2) = DbOk \<longrightarrow>
           (\<exists>row w'.
              processMessageWithAI env_reply (Some body1) world1
                = Some (Inr \<lparr> res_status = 200,
                              res_body = Some (obj [(''success'', Some (JBool True)),
                                                    (''messageId'', Some (m_id row))]) \<rparr>, w')
              \<and> trace w' = trace w4 @
                   [AxiosPostMessages (Some (JStr ''1055''))
                      (obj [(''messaging_product'', Some (JStr ''whatsapp'')),
                            (''recipient_type'', Some (JStr ''individual'')),
                            (''to'', conv_wa_id conv0),
                            (''type'', Some (JStr ''text'')),
                            (''text'', Some (obj [(''body'', Some (JStr (responseText (tm_content reply))))]))]),
                    InsertMessage row]
              \<and> messages w' = messages ?w1 @ [row] \<and> conversations w' = conversations w4
              \<and> m_type row = JStr ''bot_answer'' \<and> m_status row = JStr ''sent''
              \<and> m_text row = js_or (Some (JStr (responseText (tm_content reply)))) JNull
              \<and> m_conversation_id row = Some (JStr ''conv-1''))"
    note sent = answered [rule_format, of "thread0 ! 2" "[thread0 ! 0]", OF conjI [OF refl conjI [OF content
      conjI [OF post conjI [OF ident storage(3)]]]]]
    from sent show ?first
    proof (elim exE conjE)
      fix row :: message and w' :: world
      assume sent:
        "processMessageWithAI env_reply (Some body1) world1
                = Some (Inr \<lparr> res_status = 200,
                              res_body = Some (obj [(''success'', Some (JBool True)),
                                                    (''messageId'', Some (m_id row))]) \<rparr>, w')"
        "trace w' = trace w4 @
                   [AxiosPostMessages (Some (JStr ''1055''))
                      (obj [(''messaging_product'', Some (JStr ''whatsapp'')),
                            (''recipient_type'', Some (JStr ''individual'')),
                            (''to'', conv_wa_id conv0),
                            (''type'', Some (JStr ''text'')),
                            (''text'', Some (obj [(''body'', Some (JStr (responseText (tm_content (thread0 ! 2)))))]))]),
                    InsertMessage row]"
        "messages w' = messages ?w1 @ [row]"
        "m_type row = JStr ''bot_answer''" "m_status row = JStr ''sent''"
        "m_text row = js_or (Some (JStr (responseText (tm_content (thread0 ! 2))))) JNull"
        "m_conversation_id row = Some (JStr ''conv-1'')"
      show ?first
        apply (rule exI [of _ row], rule exI [of _ w'], rule exI [of _ w4], intro conjI)
               apply (rule sent(1))
              apply (rule tr)
             apply (rule sent(2))
            apply (rule sent(3))
           apply (rule sent(4))
          apply (rule sent(5))
         apply (rule sent(6))
        apply (rule sent(7))
        done
    qed
  qed
next
  let ?r = "\<lparr> run_id = ''run_1'', run_status = ''queued'' \<rparr>"
  let ?w1 = "world1\<lparr>n_db := 2\<rparr>"
  have lookup: "lookup_for_AI env_blank (Some body1) world1
      = (Inr ((Some (JStr ''conv-1''), Some (JStr ''1055'')), conv0, msg0), ?w1)"
    by (simp add: lookup_for_AI_def model_defs io_defs env_blank_def env_reply_def env_thread_def
        env_ok_def body1_def world1_def world0_def conv0_def msg0_def)
  have no_thread: "\<not> truthy (conv_config conv0 ''thread_id'')"
    by (simp add: conv0_def)
  have storage: "db_outcome env_blank (n_db ?w1) = DbOk" "db_outcome env_blank (n_db ?w1 + 1) = DbOk"
    by (simp_all add: env_blank_def env_reply_def env_thread_def env_ok_def)
  have thread: "threads_create env_blank (n_http ?w1) = Inr ''thread_1''"
    by (simp add: env_blank_def env_reply_def env_thread_def env_ok_def)
  have appended: "threads_messages_create env_blank (n_http ?w1 + 1) = Inr ()"
    by (simp add: env_blank_def env_reply_def env_thread_def env_ok_def)
  have run: "threads_runs_create env_blank (n_http ?w1 + 2) = Inr ?r"
    by (simp add: env_blank_def env_reply_def env_thread_def env_ok_def)
  have polls: "\<forall>k\<le>2. threads_runs_retrieve env_blank (n_http ?w1 + 3 + k) = Inr (polls_then_completed k)"
    by (simp add: env_blank_def env_reply_def env_thread_def env_ok_def world1_def world0_def)
  have busy: "\<forall>k<2. in_progress (polls_then_completed k)"
    by (simp add: polls_then_completed_def in_progress_def)
  have settled: "\<not> in_progress (polls_then_completed 2)"
    by (simp add: polls_then_completed_def in_progress_def)
  have budget: "\<forall>k<2. clock env_blank (n_now ?w1 + 3 + k) - clock env_blank (n_now ?w1 + 2) \<le> 120000"
    by (simp add: env_blank_def env_reply_def env_thread_def env_ok_def world1_def world0_def)
  have listing: "threads_messages_list env_blank (n_http ?w1 + 4 + 2) = Inr thread_blank"
    by (simp add: env_blank_def)
  have "Array_sort env_blank compare_created_at thread_blank
      = sort_key (\<lambda>m. - tm_created_at m) thread_blank"
    by (rule Array_sort_in_range) (simp add: thread_blank_def)
  then have ranked: "thread_blank
      = Array_sort env_blank compare_created_at (filter (\<lambda>msg. tm_role msg = ''assistant'') thread_blank)"
    by (simp add: thread_blank_def)
  have blank: "thread_blank = [] \<or> (\<exists>reply older. thread_blank = reply # older \<and> tm_content reply = [])"
    by (simp add: thread_blank_def)
  note main = processMessageWithAI_new_thread [OF lookup no_thread storage thread appended run
      polls busy settled budget listing ranked]
  from main show ?second
  proof (elim exE conjE)
    fix conversation' :: conversation and w4 :: world
    assume tr: "trace w4 = trace ?w1 @
          [ThreadsCreate,
           UpdateConversationConfig (conv_id conv0)
             ((conv_config conv0)(''thread_id'' \<mapsto> JStr ''thread_1''))
             (JDate (clock env_blank (n_now ?w1))),
           ThreadsMessagesCreate (JStr ''thread_1'') (m_text msg0),
           ThreadsRunsCreate (JStr ''thread_1'')
             (js_or_val (conv_config conv0 ''assistant_openai_id'') (this_assistantId env_blank)),
           UpdateConversationConfig (conv_id conv0)
             ((conv_config conv0)(''thread_id'' \<mapsto> JStr ''thread_1'', ''run_id'' \<mapsto> JStr (run_id ?r)))
             (JDate (clock env_blank (n_now ?w1 + 1)))]
          @ replicate (Suc 2) (ThreadsRunsRetrieve (JStr ''thread_1'') (run_id ?r))
          @ [ThreadsMessagesList (JStr ''thread_1'')]"
      and rows: "messages w4 = messages ?w1"
      and silent: "thread_blank = [] \<or> (\<exists>reply older. thread_blank = reply # older \<and> tm_content reply = [])
          \<longrightarrow> processMessageWithAI env_blank (Some body1) world1
                = Some (Inl (ApiError 500 ''No response from AI''), w4)"
    have raised: "processMessageWithAI env_blank (Some body1) world1
                = Some (Inl (ApiError 500 ''No response from AI''), w4)"
      using silent blank by (rule mp)
    show ?second
      apply (intro exI [of _ w4] conjI)
        apply (rule raised)
       apply (rule rows)
      apply (rule tr)
      done
  qed
qed

text \<open>
  The claim as stated fails when the run ends without an assistant message (here it
  fails on a new thread): polling ends at the first poll, the thread has no assistant
  message, and the caller's guard raises \<open>No response from AI\<close>. Nothing is sent and no
  row is stored.
\<close>

theorem processMessageWithAI_no_reply_counterexample:
  "map_option fst (processMessageWithAI env_failed (Some body1) world1)
     = Some (Inl (ApiError 500 ''No response from AI''))
   \<and> map_option (messages \<circ> snd) (processMessageWithAI env_failed (Some body1) world1)
     = Some (messages world1)
   \<and> map_option (trace \<circ> snd) (processMessageWithAI env_failed (Some body1) world1)
     = Some [ThreadsCreate,
             UpdateConversationConfig (JStr ''conv-1'') (Map.empty(''thread_id'' \<mapsto> JStr ''thread_1''))
               (JDate 0),
             ThreadsMessagesCreate (JStr ''thread_1'') (JStr ''hello''),
             ThreadsRunsCreate (JStr ''thread_1'') (Some (JStr ''asst_1'')),
             UpdateConversationConfig (JStr ''conv-1'')
               (Map.empty(''thread_id'' \<mapsto> JStr ''thread_1'', ''run_id'' \<mapsto> JStr ''run_1''))
               (JDate 1000),
             ThreadsRunsRetrieve (JStr ''thread_1'') ''run_1'',
             ThreadsMessagesList (JStr ''thread_1'')]"
proof -
  have lookup: "lookup_for_AI env_failed (Some body1) world1
      = (Inr ((Some (JStr ''conv-1''), Some (JStr ''1055'')), conv0, msg0), world1\<lparr>n_db := 2\<rparr>)"
    by (simp add: lookup_for_AI_def model_defs io_defs env_failed_def env_ok_def
        body1_def world1_def world0_def conv0_def msg0_def)
  have started: "start_run env_failed (m_text msg0) (conv_config conv0) (conv0, world1\<lparr>n_db := 2\<rparr>)
      = (Inr (JStr ''thread_1'', \<lparr> run_id = ''run_1'', run_status = ''queued'' \<rparr>),
         (conv0\<lparr>conv_config := (conv_config conv0)(''thread_id'' \<mapsto> JStr ''thread_1'',
                                    ''run_id'' \<mapsto> JStr ''run_1''),
                conv_updated_at := JDate 1000\<rparr>,
          world1\<lparr>conversations :=
                   [conv0\<lparr>conv_config := (conv_config conv0)(''thread_id'' \<mapsto> JStr ''thread_1'',
                                    ''run_id'' \<mapsto> JStr ''run_1''),
                          conv_updated_at := JDate 1000\<rparr>],
                 trace :=
                   [ThreadsCreate,
                    UpdateConversationConfig (JStr ''conv-1'')
                      (Map.empty(''thread_id'' \<mapsto> JStr ''thread_1'')) (JDate 0),
                    ThreadsMessagesCreate (JStr ''thread_1'') (JStr ''hello''),
                    ThreadsRunsCreate (JStr ''thread_1'') (Some (JStr ''asst_1'')),
                    UpdateConversationConfig (JStr ''conv-1'')
                      (Map.empty(''thread_id'' \<mapsto> JStr ''thread_1'', ''run_id'' \<mapsto> JStr ''run_1''))
                      (JDate 1000)],
                 n_db := 4, n_http := 3, n_now := 2\<rparr>))"
    by (subst start_run_new_thread
          [where thread_id = "''thread_1''" and r = "\<lparr> run_id = ''run_1'', run_status = ''queued'' \<rparr>"])
       (simp_all add: env_failed_def env_ok_def world1_def world0_def conv0_def msg0_def
          set_row_config_def this_assistantId_def js_or_val_def)
  show ?thesis
    unfolding processMessageWithAI_def lookup prod.case sum.case processConversation_def started
    by (simp add: waitForRun_def waitForRun_loop.simps in_progress_def
        getRunStatus_def getLastAssistantMessage_def getMessages_def Array_sort_def
        consistent_comparator_def stable_sort_def in_world_apply io_defs env_failed_def env_ok_def world1_def world0_def)
qed

end
